theory Spec2Isabelle
  imports Main "HOL-Library.Sublist"
begin

section \<open>JavaScript values\<close>

text \<open>
  A value of type \<^verbatim>\<open>string | undefined\<close> is a \<^typ>\<open>string option\<close>, \<open>None\<close> being
  \<^verbatim>\<open>undefined\<close>. Strings are byte strings (UTF-8), which is what the prompt file holds;
  every operation the code applies to a string (emptiness, concatenation, splitting at a
  slash) is the same on the bytes.
\<close>

definition truthy :: "string option \<Rightarrow> bool" where
  \<comment> \<open>the truth value JavaScript gives \<^verbatim>\<open>x\<close>: neither undefined nor the empty string\<close>
  "truthy v = (case v of None \<Rightarrow> False | Some s \<Rightarrow> s \<noteq> [])"

definition or_else :: "string option \<Rightarrow> string \<Rightarrow> string" where
  \<comment> \<open>\<^verbatim>\<open>x || d\<close>\<close>
  "or_else v d = (case v of None \<Rightarrow> d | Some s \<Rightarrow> if s = [] then d else s)"

definition nullish :: "string option \<Rightarrow> string \<Rightarrow> string" where
  \<comment> \<open>\<^verbatim>\<open>x ?? d\<close>\<close>
  "nullish v d = (case v of None \<Rightarrow> d | Some s \<Rightarrow> s)"

definition interp :: "string option \<Rightarrow> string" where
  \<comment> \<open>\<^verbatim>\<open>${x}\<close> in a template literal: undefined prints as the word undefined\<close>
  "interp v = (case v of None \<Rightarrow> ''undefined'' | Some s \<Rightarrow> s)"

definition spread_if :: "string option \<Rightarrow> string option" where
  \<comment> \<open>\<^verbatim>\<open>...(x && { x })\<close>: the property is written only when \<^verbatim>\<open>x\<close> is truthy\<close>
  "spread_if v = (if truthy v then v else None)"

fun join :: "string \<Rightarrow> string list \<Rightarrow> string" where
  \<comment> \<open>\<^verbatim>\<open>xs.join(sep)\<close>\<close>
  "join sep [] = []"
| "join sep [x] = x"
| "join sep (x # y # ys) = x @ sep @ join sep (y # ys)"

definition digit_char :: "nat \<Rightarrow> char" where
  "digit_char d = ''0123456789'' ! d"

function string_of_nat :: "nat \<Rightarrow> string" where
  "string_of_nat n =
     (if n < 10 then [digit_char n] else string_of_nat (n div 10) @ [digit_char (n mod 10)])"
  by pat_completeness auto
termination
  by (relation "measure id") auto

declare string_of_nat.simps [simp del]

definition toString :: "int \<Rightarrow> string" where
  \<comment> \<open>\<^verbatim>\<open>n.toString()\<close> of an integer (entity numbers and comment ids are integers)\<close>
  "toString n = (if n < 0 then CHR ''-'' # string_of_nat (nat (- n)) else string_of_nat (nat n))"

section \<open>The raw trigger context\<close>

text \<open>
  The payload of the event, by kind, with the fields \<^verbatim>\<open>prepareContext\<close> reads: the id, body
  and author of a comment, the body (which may be null) and author of a review, the author
  of an issue. Where two objects of the source have a property of the same name, the
  fields of the context carry the prefix \<open>ctx_\<close>, those of its inputs the prefix \<open>in_\<close>, and
  the working branch of the common fields is \<open>cf_claudeBranch\<close>.
\<close>

datatype Payload =
    IssueCommentPayload int string string
  | PullRequestReviewPayload "string option" string
  | PullRequestReviewCommentPayload int string string
  | IssuesPayload string
  | PullRequestPayload

record Inputs =
  in_triggerPhrase :: "string option"
  in_assigneeTrigger :: "string option"
  in_customInstructions :: "string option"
  in_allowedTools :: "string option"
  in_disallowedTools :: "string option"
  in_directPrompt :: "string option"

record ParsedGitHubContext =
  repository_full_name :: string
  ctx_eventName :: string
  ctx_eventAction :: "string option"
  payload :: Payload
  entityNumber :: int
  ctx_isPR :: bool
  inputs :: Inputs

text \<open>
  Modelled from the spec: the four guards \<^verbatim>\<open>isIssueCommentEvent\<close>,
  \<^verbatim>\<open>isPullRequestReviewEvent\<close>, \<^verbatim>\<open>isPullRequestReviewCommentEvent\<close> and
  \<^verbatim>\<open>isIssuesEvent\<close> are imported from \<^verbatim>\<open>../github/context\<close>; the spec describes them as
  the four payload capabilities (an issue-comment payload, a PR-review payload, a
  PR-review-comment payload, an issues payload).
\<close>

definition isIssueCommentEvent :: "ParsedGitHubContext \<Rightarrow> bool" where
  "isIssueCommentEvent context =
     (case payload context of IssueCommentPayload i b u \<Rightarrow> True | _ \<Rightarrow> False)"

definition isPullRequestReviewEvent :: "ParsedGitHubContext \<Rightarrow> bool" where
  "isPullRequestReviewEvent context =
     (case payload context of PullRequestReviewPayload b u \<Rightarrow> True | _ \<Rightarrow> False)"

definition isPullRequestReviewCommentEvent :: "ParsedGitHubContext \<Rightarrow> bool" where
  "isPullRequestReviewCommentEvent context =
     (case payload context of PullRequestReviewCommentPayload i b u \<Rightarrow> True | _ \<Rightarrow> False)"

definition isIssuesEvent :: "ParsedGitHubContext \<Rightarrow> bool" where
  "isIssuesEvent context = (case payload context of IssuesPayload u \<Rightarrow> True | _ \<Rightarrow> False)"

section \<open>The normalized command\<close>

text \<open>
  \<^verbatim>\<open>EventData\<close> is the object each branch of \<^verbatim>\<open>prepareContext\<close> builds: a property the
  branch does not write is \<open>None\<close>.
\<close>

record EventData =
  eventName :: string
  eventAction :: "string option"
  isPR :: bool
  prNumber :: "string option"
  issueNumber :: "string option"
  commentId :: "string option"
  commentBody :: "string option"
  claudeBranch :: "string option"
  defaultBranch :: "string option"
  assigneeTrigger :: "string option"

record CommonFields =
  repository :: string
  claudeCommentId :: string
  triggerPhrase :: string
  triggerUsername :: "string option"
  customInstructions :: "string option"
  allowedTools :: "string option"
  disallowedTools :: "string option"
  directPrompt :: "string option"
  cf_claudeBranch :: "string option"

record PreparedContext = CommonFields +
  eventData :: EventData

definition with_eventData :: "CommonFields \<Rightarrow> EventData \<Rightarrow> PreparedContext" where
  \<comment> \<open>\<^verbatim>\<open>{ ...commonFields, eventData }\<close>\<close>
  "with_eventData cf ed =
     \<lparr>repository = repository cf, claudeCommentId = claudeCommentId cf,
      triggerPhrase = triggerPhrase cf, triggerUsername = triggerUsername cf,
      customInstructions = customInstructions cf, allowedTools = allowedTools cf,
      disallowedTools = disallowedTools cf, directPrompt = directPrompt cf,
      cf_claudeBranch = cf_claudeBranch cf, eventData = ed\<rparr>"

definition no_eventData :: "string \<Rightarrow> bool \<Rightarrow> EventData" where
  \<comment> \<open>an object with the two properties every branch writes, and no other\<close>
  "no_eventData name pr =
     \<lparr>eventName = name, eventAction = None, isPR = pr, prNumber = None, issueNumber = None,
      commentId = None, commentBody = None, claudeBranch = None, defaultBranch = None,
      assigneeTrigger = None\<rparr>"

section \<open>The capability strings\<close>

definition BASE_ALLOWED_TOOLS :: "string list" where
  "BASE_ALLOWED_TOOLS =
     [''Edit'', ''Glob'', ''Grep'', ''LS'', ''Read'', ''Write'',
      ''mcp__github_file_ops__commit_files'', ''mcp__github_file_ops__delete_files'']"

definition DISALLOWED_TOOLS :: "string list" where
  "DISALLOWED_TOOLS = [''WebSearch'', ''WebFetch'']"

definition buildAllowedToolsString :: "EventData \<Rightarrow> string option \<Rightarrow> string" where
  "buildAllowedToolsString ed customAllowedTools =
     (let baseTools =
            (if eventName ed = ''pull_request_review_comment''
             then BASE_ALLOWED_TOOLS @ [''mcp__github__update_pull_request_comment'']
             else BASE_ALLOWED_TOOLS @ [''mcp__github__update_issue_comment'']);
          allAllowedTools = join '','' baseTools
      in if truthy customAllowedTools
         then allAllowedTools @ '','' @ interp customAllowedTools
         else allAllowedTools)"

definition buildDisallowedToolsString :: "string option \<Rightarrow> string" where
  "buildDisallowedToolsString customDisallowedTools =
     (let allDisallowedTools = join '','' DISALLOWED_TOOLS
      in if truthy customDisallowedTools
         then allDisallowedTools @ '','' @ interp customDisallowedTools
         else allDisallowedTools)"

section \<open>Normalization\<close>

definition entity_prNumber :: "ParsedGitHubContext \<Rightarrow> string option" where
  \<comment> \<open>\<^verbatim>\<open>isPR ? context.entityNumber.toString() : undefined\<close>\<close>
  "entity_prNumber context =
     (if ctx_isPR context then Some (toString (entityNumber context)) else None)"

definition entity_issueNumber :: "ParsedGitHubContext \<Rightarrow> string option" where
  \<comment> \<open>\<^verbatim>\<open>!isPR ? context.entityNumber.toString() : undefined\<close>\<close>
  "entity_issueNumber context =
     (if \<not> ctx_isPR context then Some (toString (entityNumber context)) else None)"

definition extract_trigger ::
  "ParsedGitHubContext \<Rightarrow> string option \<times> string option \<times> string option" where
  \<comment> \<open>\<^verbatim>\<open>(triggerUsername, commentId, commentBody)\<close>, by the first guard that holds\<close>
  "extract_trigger context =
     (if isIssueCommentEvent context then
        (case payload context of
           IssueCommentPayload i b u \<Rightarrow> (Some u, Some (toString i), Some b)
         | _ \<Rightarrow> (None, None, None))
      else if isPullRequestReviewEvent context then
        (case payload context of
           PullRequestReviewPayload b u \<Rightarrow> (Some u, None, Some (nullish b ''''))
         | _ \<Rightarrow> (None, None, None))
      else if isPullRequestReviewCommentEvent context then
        (case payload context of
           PullRequestReviewCommentPayload i b u \<Rightarrow> (Some u, Some (toString i), Some b)
         | _ \<Rightarrow> (None, None, None))
      else if isIssuesEvent context then
        (case payload context of
           IssuesPayload u \<Rightarrow> (Some u, None, None)
         | _ \<Rightarrow> (None, None, None))
      else (None, None, None))"

definition assemble_commonFields ::
  "ParsedGitHubContext \<Rightarrow> string \<Rightarrow> string option \<Rightarrow> string option \<Rightarrow> CommonFields" where
  \<comment> \<open>the object \<^verbatim>\<open>commonFields\<close>; the second string option is \<^verbatim>\<open>claudeBranch\<close>\<close>
  "assemble_commonFields context claudeCommentId' triggerUsername' claudeBranch' =
     \<lparr>repository = repository_full_name context,
      claudeCommentId = claudeCommentId',
      triggerPhrase = or_else (in_triggerPhrase (inputs context)) ''@claude'',
      triggerUsername = spread_if triggerUsername',
      customInstructions = spread_if (in_customInstructions (inputs context)),
      allowedTools = spread_if (in_allowedTools (inputs context)),
      disallowedTools = spread_if (in_disallowedTools (inputs context)),
      directPrompt = spread_if (in_directPrompt (inputs context)),
      cf_claudeBranch = spread_if claudeBranch'\<rparr>"

definition prepareContext ::
  "ParsedGitHubContext \<Rightarrow> string \<Rightarrow> string option \<Rightarrow> string option \<Rightarrow> string + PreparedContext"
  where
  \<comment> \<open>arguments: context, claudeCommentId, defaultBranch, claudeBranch; \<open>Inl\<close> is the
      message of the Error thrown\<close>
  "prepareContext context claudeCommentId' defaultBranch' claudeBranch' =
     (let eventName' = ctx_eventName context;
          eventAction' = ctx_eventAction context;
          assigneeTrigger' = in_assigneeTrigger (inputs context);
          isPR' = ctx_isPR context;
          prNumber' = entity_prNumber context;
          issueNumber' = entity_issueNumber context;
          (triggerUsername', commentId', commentBody') = extract_trigger context;
          commonFields = assemble_commonFields context claudeCommentId' triggerUsername' claudeBranch'
      in
      if eventName' = ''pull_request_review_comment'' then
        (if \<not> truthy prNumber' then
           Inl ''PR_NUMBER is required for pull_request_review_comment event''
         else if \<not> isPR' then
           Inl ''IS_PR must be true for pull_request_review_comment event''
         else if \<not> truthy commentBody' then
           Inl ''COMMENT_BODY is required for pull_request_review_comment event''
         else
           Inr (with_eventData commonFields
             ((no_eventData ''pull_request_review_comment'' True)
                \<lparr>prNumber := prNumber', commentId := spread_if commentId',
                 commentBody := commentBody', claudeBranch := spread_if claudeBranch',
                 defaultBranch := spread_if defaultBranch'\<rparr>)))
      else if eventName' = ''pull_request_review'' then
        (if \<not> truthy prNumber' then
           Inl ''PR_NUMBER is required for pull_request_review event''
         else if \<not> isPR' then
           Inl ''IS_PR must be true for pull_request_review event''
         else if \<not> truthy commentBody' then
           Inl ''COMMENT_BODY is required for pull_request_review event''
         else
           Inr (with_eventData commonFields
             ((no_eventData ''pull_request_review'' True)
                \<lparr>prNumber := prNumber', commentBody := commentBody',
                 claudeBranch := spread_if claudeBranch',
                 defaultBranch := spread_if defaultBranch'\<rparr>)))
      else if eventName' = ''issue_comment'' then
        (if \<not> truthy commentId' then
           Inl ''COMMENT_ID is required for issue_comment event''
         else if \<not> truthy commentBody' then
           Inl ''COMMENT_BODY is required for issue_comment event''
         else if isPR' then
           (if \<not> truthy prNumber' then
              Inl ''PR_NUMBER is required for issue_comment event for PRs''
            else
              Inr (with_eventData commonFields
                ((no_eventData ''issue_comment'' True)
                   \<lparr>commentId := commentId', prNumber := prNumber',
                    commentBody := commentBody', claudeBranch := spread_if claudeBranch',
                    defaultBranch := spread_if defaultBranch'\<rparr>)))
         else if \<not> truthy claudeBranch' then
           Inl ''CLAUDE_BRANCH is required for issue_comment event''
         else if \<not> truthy defaultBranch' then
           Inl ''DEFAULT_BRANCH is required for issue_comment event''
         else if \<not> truthy issueNumber' then
           Inl ''ISSUE_NUMBER is required for issue_comment event for issues''
         else
           Inr (with_eventData commonFields
             ((no_eventData ''issue_comment'' False)
                \<lparr>commentId := commentId', claudeBranch := claudeBranch',
                 defaultBranch := defaultBranch', issueNumber := issueNumber',
                 commentBody := commentBody'\<rparr>)))
      else if eventName' = ''issues'' then
        (if \<not> truthy eventAction' then
           Inl ''GITHUB_EVENT_ACTION is required for issues event''
         else if \<not> truthy issueNumber' then
           Inl ''ISSUE_NUMBER is required for issues event''
         else if isPR' then
           Inl ''IS_PR must be false for issues event''
         else if \<not> truthy defaultBranch' then
           Inl ''DEFAULT_BRANCH is required for issues event''
         else if \<not> truthy claudeBranch' then
           Inl ''CLAUDE_BRANCH is required for issues event''
         else if eventAction' = Some ''assigned'' then
           (if \<not> truthy assigneeTrigger' then
              Inl ''ASSIGNEE_TRIGGER is required for issue assigned event''
            else
              Inr (with_eventData commonFields
                ((no_eventData ''issues'' False)
                   \<lparr>eventAction := Some ''assigned'', issueNumber := issueNumber',
                    defaultBranch := defaultBranch', claudeBranch := claudeBranch',
                    assigneeTrigger := assigneeTrigger'\<rparr>)))
         else if eventAction' = Some ''opened'' then
           Inr (with_eventData commonFields
             ((no_eventData ''issues'' False)
                \<lparr>eventAction := Some ''opened'', issueNumber := issueNumber',
                 defaultBranch := defaultBranch', claudeBranch := claudeBranch'\<rparr>))
         else
           Inl (''Unsupported issue action: '' @ interp eventAction'))
      else if eventName' = ''pull_request'' then
        (if \<not> truthy prNumber' then
           Inl ''PR_NUMBER is required for pull_request event''
         else if \<not> isPR' then
           Inl ''IS_PR must be true for pull_request event''
         else
           Inr (with_eventData commonFields
             ((no_eventData ''pull_request'' True)
                \<lparr>eventAction := eventAction', prNumber := prNumber',
                 claudeBranch := spread_if claudeBranch',
                 defaultBranch := spread_if defaultBranch'\<rparr>)))
      else
        Inl (''Unsupported event type: '' @ eventName'))"

section \<open>The classifier\<close>

definition getEventTypeAndContext :: "PreparedContext \<Rightarrow> string + (string \<times> string)" where
  \<comment> \<open>\<open>Inr (eventType, triggerContext)\<close>, or the message of the Error thrown\<close>
  "getEventTypeAndContext envVars =
     (let ed = eventData envVars in
      if eventName ed = ''pull_request_review_comment'' then
        Inr (''REVIEW_COMMENT'',
             ''PR review comment with '' @ [CHR 0x27] @ triggerPhrase envVars @ [CHR 0x27])
      else if eventName ed = ''pull_request_review'' then
        Inr (''PR_REVIEW'',
             ''PR review with '' @ [CHR 0x27] @ triggerPhrase envVars @ [CHR 0x27])
      else if eventName ed = ''issue_comment'' then
        Inr (''GENERAL_COMMENT'',
             ''issue comment with '' @ [CHR 0x27] @ triggerPhrase envVars @ [CHR 0x27])
      else if eventName ed = ''issues'' then
        (if eventAction ed = Some ''opened'' then
           Inr (''ISSUE_CREATED'',
                ''new issue with '' @ [CHR 0x27] @ triggerPhrase envVars @ [CHR 0x27] @ '' in body'')
         else
           Inr (''ISSUE_ASSIGNED'',
                ''issue assigned to '' @ [CHR 0x27] @ interp (assigneeTrigger ed) @ [CHR 0x27]))
      else if eventName ed = ''pull_request'' then
        Inr (''PULL_REQUEST'',
             (if truthy (eventAction ed) then ''pull request '' @ interp (eventAction ed)
              else ''pull request event''))
      else Inl ''Unexpected event type'')"

section \<open>The required fields of each variant\<close>

text \<open>
  The table of the specification, to compare \<open>prepareContext\<close> with: for the variant the
  event kind and action select, the names of the required fields that are missing or empty,
  in the order \<open>prepareContext\<close> checks them. A review body is required to be present and
  may be empty; every other required field is required to be non-empty.
\<close>

definition missing_required ::
  "ParsedGitHubContext \<Rightarrow> string option \<Rightarrow> string option \<Rightarrow> string list" where
  "missing_required context defaultBranch' claudeBranch' =
     (let (triggerUsername', commentId', commentBody') = extract_trigger context;
          missing = (\<lambda>name v. if truthy v then [] else [name]);
          kind = ctx_eventName context;
          action = ctx_eventAction context
      in
      if kind = ''pull_request_review_comment'' then
        missing ''PR_NUMBER'' (entity_prNumber context) @ missing ''COMMENT_BODY'' commentBody'
      else if kind = ''pull_request_review'' then
        missing ''PR_NUMBER'' (entity_prNumber context) @
        (if commentBody' = None then [''COMMENT_BODY''] else [])
      else if kind = ''issue_comment'' then
        missing ''COMMENT_ID'' commentId' @ missing ''COMMENT_BODY'' commentBody' @
        (if ctx_isPR context then missing ''PR_NUMBER'' (entity_prNumber context)
         else missing ''CLAUDE_BRANCH'' claudeBranch' @ missing ''DEFAULT_BRANCH'' defaultBranch' @
              missing ''ISSUE_NUMBER'' (entity_issueNumber context))
      else if kind = ''issues'' \<and> (action = Some ''assigned'' \<or> action = Some ''opened'') then
        missing ''ISSUE_NUMBER'' (entity_issueNumber context) @
        missing ''DEFAULT_BRANCH'' defaultBranch' @ missing ''CLAUDE_BRANCH'' claudeBranch' @
        (if action = Some ''assigned''
         then missing ''ASSIGNEE_TRIGGER'' (in_assigneeTrigger (inputs context)) else [])
      else if kind = ''pull_request'' then
        missing ''PR_NUMBER'' (entity_prNumber context)
      else [])"

section \<open>The prompt\<close>

text \<open>
  The template of \<^verbatim>\<open>generatePrompt\<close> is Japanese text with ASCII markers. Text outside ASCII
  is written as the list of its Unicode code points, which \<open>utf8\<close> encodes to bytes.
\<close>

definition utf8_char :: "nat \<Rightarrow> string" where
  "utf8_char c =
     (if c < 0x80 then [char_of c]
      else if c < 0x800 then [char_of (0xC0 + c div 0x40), char_of (0x80 + c mod 0x40)]
      else if c < 0x10000 then
        [char_of (0xE0 + c div 0x1000), char_of (0x80 + c div 0x40 mod 0x40),
         char_of (0x80 + c mod 0x40)]
      else
        [char_of (0xF0 + c div 0x40000), char_of (0x80 + c div 0x1000 mod 0x40),
         char_of (0x80 + c div 0x40 mod 0x40), char_of (0x80 + c mod 0x40)])"

definition utf8 :: "nat list \<Rightarrow> string" where
  "utf8 cs = concat (map utf8_char cs)"

definition str_or :: "string \<Rightarrow> string \<Rightarrow> string" where
  \<comment> \<open>\<^verbatim>\<open>s || d\<close> for a string \<^verbatim>\<open>s\<close>\<close>
  "str_or s d = (if s = [] then d else s)"

fun split_on :: "char \<Rightarrow> string \<Rightarrow> string list" where
  \<comment> \<open>\<^verbatim>\<open>s.split(c)\<close> for a separator of one character\<close>
  "split_on c [] = [[]]"
| "split_on c (x # xs) =
     (if x = c then [] # split_on c xs
      else (case split_on c xs of [] \<Rightarrow> [[x]] | p # ps \<Rightarrow> (x # p) # ps))"

definition nth_opt :: "'a list \<Rightarrow> nat \<Rightarrow> 'a option" where
  \<comment> \<open>\<^verbatim>\<open>xs[i]\<close>: undefined past the end\<close>
  "nth_opt xs i = (if i < length xs then Some (xs ! i) else None)"

text \<open>
  The formatters of \<^verbatim>\<open>../github/data/formatter\<close>, the constant \<^verbatim>\<open>GITHUB_SERVER_URL\<close> of
  \<^verbatim>\<open>../github/api/config\<close> and the type of the fetched data are declared in other modules:
  the formatters and the constant are parameters of the prompt, the fetched data are of any
  type, and \<open>contextData_body\<close> is the read \<^verbatim>\<open>contextData?.body\<close>. The image map is a list of
  pairs, or undefined.
\<close>

record ('d, 'c, 'r, 'f) Formatter =
  formatContext :: "'d \<Rightarrow> bool \<Rightarrow> string"
  formatBody :: "string \<Rightarrow> (string \<times> string) list option \<Rightarrow> string"
  formatComments :: "'c \<Rightarrow> (string \<times> string) list option \<Rightarrow> string"
  formatReviewComments :: "'r \<Rightarrow> (string \<times> string) list option \<Rightarrow> string"
  formatChangedFilesWithSHA :: "'f \<Rightarrow> string"
  stripHtmlComments :: "string \<Rightarrow> string"
  contextData_body :: "'d \<Rightarrow> string option"
  GITHUB_SERVER_URL :: string

record ('d, 'c, 'r, 'f) FetchDataResult =
  contextData :: 'd
  comments :: 'c
  changedFilesWithSHA :: 'f
  reviewData :: 'r
  imageUrlMap :: "(string \<times> string) list option"

definition formattedReviewComments ::
  "('d, 'c, 'r, 'f) Formatter \<Rightarrow> EventData \<Rightarrow> ('d, 'c, 'r, 'f) FetchDataResult \<Rightarrow> string" where
  "formattedReviewComments env ed githubData =
     (if isPR ed then formatReviewComments env (reviewData githubData) (imageUrlMap githubData)
      else [])"

definition formattedChangedFiles ::
  "('d, 'c, 'r, 'f) Formatter \<Rightarrow> EventData \<Rightarrow> ('d, 'c, 'r, 'f) FetchDataResult \<Rightarrow> string" where
  "formattedChangedFiles env ed githubData =
     (if isPR ed then formatChangedFilesWithSHA env (changedFilesWithSHA githubData) else [])"

definition imagesInfo :: "('d, 'c, 'r, 'f) FetchDataResult \<Rightarrow> string" where
  \<open>imagesInfo githubData =
     (if (case imageUrlMap githubData of None \<Rightarrow> False | Some m \<Rightarrow> 0 < length m) then
         ''\<newline>'' @
         ''\<newline>'' @
         ''<images_info>\<newline>'' @
         ''GitHub'' @ utf8 [0x30B3, 0x30E1, 0x30F3, 0x30C8, 0x304B, 0x3089, 0x753B, 0x50CF,
          0x304C, 0x30C0, 0x30A6, 0x30F3, 0x30ED, 0x30FC, 0x30C9, 0x3055, 0x308C, 0x3001,
          0x30C7, 0x30A3, 0x30B9, 0x30AF, 0x306B, 0x4FDD, 0x5B58, 0x3055, 0x308C, 0x307E,
          0x3057, 0x305F, 0x3002, 0x3053, 0x308C, 0x3089, 0x306E, 0x30D5, 0x30A1, 0x30A4,
          0x30EB, 0x30D1, 0x30B9, 0x306F, 0x4E0A, 0x8A18, 0x306E, 0x30D5, 0x30A9, 0x30FC,
          0x30DE, 0x30C3, 0x30C8, 0x6E08, 0x307F, 0x30B3, 0x30E1, 0x30F3, 0x30C8, 0x3068,
          0x672C, 0x6587, 0x306B, 0x542B, 0x307E, 0x308C, 0x3066, 0x3044, 0x307E, 0x3059,
          0x3002] @ ''Read'' @ utf8 [0x30C4, 0x30FC, 0x30EB, 0x3092, 0x4F7F, 0x7528, 0x3057,
          0x3066, 0x3053, 0x308C, 0x3089, 0x306E, 0x753B, 0x50CF, 0x3092, 0x8868, 0x793A,
          0x3067, 0x304D, 0x307E, 0x3059, 0x3002] @ ''\<newline>'' @
         ''</images_info>''
      else [])\<close>

definition formattedBody ::
  "('d, 'c, 'r, 'f) Formatter \<Rightarrow> ('d, 'c, 'r, 'f) FetchDataResult \<Rightarrow> string" where
  \<open>formattedBody env githubData =
     (if truthy (contextData_body env (contextData githubData))
      then formatBody env (interp (contextData_body env (contextData githubData)))
             (imageUrlMap githubData)
      else
         utf8 [0x8AAC, 0x660E, 0x304C, 0x63D0, 0x4F9B, 0x3055, 0x308C, 0x3066, 0x3044, 0x307E,
          0x305B, 0x3093])\<close>

definition review_comments_body ::
  "('d, 'c, 'r, 'f) Formatter \<Rightarrow> EventData \<Rightarrow> ('d, 'c, 'r, 'f) FetchDataResult \<Rightarrow> string" where
  \<comment> \<open>what stands between the \<^verbatim>\<open>review_comments\<close> markers\<close>
  \<open>review_comments_body env ed githubData =
     (if isPR ed
      then str_or (formattedReviewComments env ed githubData)
            (utf8 [0x30EC, 0x30D3, 0x30E5, 0x30FC, 0x30B3, 0x30E1, 0x30F3, 0x30C8, 0x306A, 0x3057])
      else [])\<close>

definition changed_files_body ::
  "('d, 'c, 'r, 'f) Formatter \<Rightarrow> EventData \<Rightarrow> ('d, 'c, 'r, 'f) FetchDataResult \<Rightarrow> string" where
  \<comment> \<open>what stands between the \<^verbatim>\<open>changed_files\<close> markers\<close>
  \<open>changed_files_body env ed githubData =
     (if isPR ed
      then str_or (formattedChangedFiles env ed githubData)
            (utf8 [0x5909, 0x66F4, 0x3055, 0x308C, 0x305F, 0x30D5, 0x30A1, 0x30A4, 0x30EB, 0x306A, 0x3057])
      else [])\<close>

definition prompt_context_sections ::
  "('d, 'c, 'r, 'f) Formatter \<Rightarrow> PreparedContext \<Rightarrow> ('d, 'c, 'r, 'f) FetchDataResult \<Rightarrow> string" where
  \<comment> \<open>lines 382 to 395: the opening sentence, the context, the body and the comments\<close>
  \<open>prompt_context_sections env context githubData =
      utf8 [0x3042, 0x306A, 0x305F, 0x306F] @ ''GitHub'' @ utf8 [0x306E, 0x30A4, 0x30B7, 0x30E5,
       0x30FC, 0x3068, 0x30D7, 0x30EB, 0x30EA, 0x30AF, 0x30A8, 0x30B9, 0x30C8, 0x3092, 0x652F,
       0x63F4, 0x3059, 0x308B, 0x305F, 0x3081, 0x306B, 0x8A2D, 0x8A08, 0x3055, 0x308C, 0x305F] @
       ''AI'' @ utf8 [0x30A2, 0x30B7, 0x30B9, 0x30BF, 0x30F3, 0x30C8, 0x3001] @ ''Claude'' @
       utf8 [0x3067, 0x3059, 0x3002, 0x30B3, 0x30F3, 0x30C6, 0x30AD, 0x30B9, 0x30C8, 0x3092,
       0x614E, 0x91CD, 0x306B, 0x5206, 0x6790, 0x3057, 0x3001, 0x9069, 0x5207, 0x306B, 0x5FDC,
       0x7B54, 0x3057, 0x3066, 0x304F, 0x3060, 0x3055, 0x3044, 0x3002, 0x73FE, 0x5728, 0x306E,
       0x30BF, 0x30B9, 0x30AF, 0x306E, 0x30B3, 0x30F3, 0x30C6, 0x30AD, 0x30B9, 0x30C8, 0x306F,
       0x4EE5, 0x4E0B, 0x306E, 0x901A, 0x308A, 0x3067, 0x3059, 0xFF1A] @ ''\<newline>'' @
      ''\<newline>'' @
      ''<formatted_context>\<newline>'' @
      formatContext env (contextData githubData) (isPR (eventData context)) @
      ''\<newline>'' @
      ''</formatted_context>\<newline>'' @
      ''\<newline>'' @
      ''<pr_or_issue_body>\<newline>'' @
      formattedBody env githubData @
      ''\<newline>'' @
      ''</pr_or_issue_body>\<newline>'' @
      ''\<newline>'' @
      ''<comments>\<newline>'' @
      str_or (formatComments env (comments githubData) (imageUrlMap githubData))
        (utf8 [0x30B3, 0x30E1, 0x30F3, 0x30C8, 0x306A, 0x3057]) @
      ''\<newline>'' @
      ''</comments>\<newline>'' @
      ''\<newline>''\<close>

definition prompt_pr_sections ::
  "('d, 'c, 'r, 'f) Formatter \<Rightarrow> PreparedContext \<Rightarrow> ('d, 'c, 'r, 'f) FetchDataResult \<Rightarrow> string" where
  \<comment> \<open>lines 396 to 402: the review comments, the changed files and the images note\<close>
  \<open>prompt_pr_sections env context githubData =
      ''<review_comments>\<newline>'' @
      review_comments_body env (eventData context) githubData @
      ''\<newline>'' @
      ''</review_comments>\<newline>'' @
      ''\<newline>'' @
      ''<changed_files>\<newline>'' @
      changed_files_body env (eventData context) githubData @
      ''\<newline>'' @
      ''</changed_files>'' @
      imagesInfo githubData\<close>

definition prompt_metadata ::
  "PreparedContext \<Rightarrow> string \<Rightarrow> string \<Rightarrow> string" where
  \<comment> \<open>lines 403 to 413: from \<^verbatim>\<open>event_type\<close> to \<^verbatim>\<open>claude_comment_id\<close>\<close>
  \<open>prompt_metadata context eventType triggerContext =
      ''\<newline>'' @
      ''\<newline>'' @
      ''<event_type>'' @
      eventType @
      ''</event_type>\<newline>'' @
      ''<is_pr>'' @
      (if isPR (eventData context) then ''true'' else ''false'') @
      ''</is_pr>\<newline>'' @
      ''<trigger_context>'' @
      triggerContext @
      ''</trigger_context>\<newline>'' @
      ''<repository>'' @
      repository context @
      ''</repository>\<newline>'' @
      (if isPR (eventData context)
       then
         ''<pr_number>'' @
         interp (prNumber (eventData context)) @
         ''</pr_number>''
       else
         ''<issue_number>'' @
         nullish (issueNumber (eventData context)) [] @
         ''</issue_number>'') @
      ''\<newline>'' @
      ''<claude_comment_id>'' @
      claudeCommentId context @
      ''</claude_comment_id>\<newline>''\<close>

definition prompt_trigger_lines ::
  "PreparedContext \<Rightarrow> string" where
  \<comment> \<open>lines 414 and 415\<close>
  \<open>prompt_trigger_lines context =
      ''<trigger_username>'' @
      nullish (triggerUsername context) ''Unknown'' @
      ''</trigger_username>\<newline>'' @
      ''<trigger_phrase>'' @
      triggerPhrase context @
      ''</trigger_phrase>\<newline>''\<close>

definition trigger_comment_block ::
  "('d, 'c, 'r, 'f) Formatter \<Rightarrow> PreparedContext \<Rightarrow> string" where
  \<comment> \<open>lines 416 to 425\<close>
  \<open>trigger_comment_block env context =
     (let ed = eventData context in
      if (eventName ed = ''issue_comment'' \<or>
         eventName ed = ''pull_request_review_comment'' \<or>
         eventName ed = ''pull_request_review'') \<and>
         truthy (commentBody ed)
      then
         ''<trigger_comment>\<newline>'' @
         stripHtmlComments env (interp (commentBody ed)) @
         ''\<newline>'' @
         ''</trigger_comment>''
      else [])\<close>

definition direct_prompt_block ::
  "('d, 'c, 'r, 'f) Formatter \<Rightarrow> PreparedContext \<Rightarrow> string" where
  \<comment> \<open>lines 426 to 432\<close>
  \<open>direct_prompt_block env context =
     (if truthy (directPrompt context)
      then
         ''<direct_prompt>\<newline>'' @
         stripHtmlComments env (interp (directPrompt context)) @
         ''\<newline>'' @
         ''</direct_prompt>''
      else [])\<close>

definition comment_tool_info ::
  "PreparedContext \<Rightarrow> string" where
  \<comment> \<open>lines 433 to 459\<close>
  \<open>comment_tool_info context =
     (if eventName (eventData context) = ''pull_request_review_comment''
      then
         ''<comment_tool_info>\<newline>'' @
         utf8 [0x91CD, 0x8981, 0xFF1A, 0x3053, 0x306E, 0x30A4, 0x30F3, 0x30E9, 0x30A4, 0x30F3] @
          ''PR'' @ utf8 [0x30EC, 0x30D3, 0x30E5, 0x30FC, 0x30B3, 0x30E1, 0x30F3, 0x30C8, 0x3067,
          0x306F, 0x3001, 0x3053, 0x306E, 0x7279, 0x5B9A, 0x306E, 0x30EC, 0x30D3, 0x30E5,
          0x30FC, 0x30B3, 0x30E1, 0x30F3, 0x30C8, 0x3092, 0x66F4, 0x65B0, 0x3059, 0x308B,
          0x305F, 0x3081, 0x306E] @ ''mcp__github__update_pull_request_comment'' @ utf8 [0x30C4,
          0x30FC, 0x30EB, 0x306E, 0x307F, 0x304C, 0x63D0, 0x4F9B, 0x3055, 0x308C, 0x3066,
          0x3044, 0x307E, 0x3059, 0x3002] @ ''\<newline>'' @
         ''\<newline>'' @
         ''mcp__github__update_pull_request_comment'' @ utf8 [0x30C4, 0x30FC, 0x30EB, 0x306E,
          0x4F7F, 0x7528, 0x4F8B, 0xFF1A] @ ''\<newline>'' @
         ''{\<newline>'' @
         ''  "owner": "'' @
         interp (nth_opt (split_on (CHR ''/'') (repository context)) 0) @
         ''",\<newline>'' @
         ''  "repo": "'' @
         interp (nth_opt (split_on (CHR ''/'') (repository context)) 1) @
         ''",\<newline>'' @
         ''  "commentId": '' @
         or_else (commentId (eventData context)) (claudeCommentId context) @
         '',\<newline>'' @
         ''  "body": "'' @ utf8 [0x3053, 0x3053, 0x306B, 0x30B3, 0x30E1, 0x30F3, 0x30C8, 0x30C6,
          0x30AD, 0x30B9, 0x30C8, 0x3092, 0x5165, 0x529B] @ ''"\<newline>'' @
         ''}\<newline>'' @
         ''4'' @ utf8 [0x3064, 0x306E, 0x30D1, 0x30E9, 0x30E1, 0x30FC, 0x30BF, 0xFF08] @
          ''owner'' @ utf8 [0x3001] @ ''repo'' @ utf8 [0x3001] @ ''commentId'' @ utf8 [0x3001] @
          ''body'' @ utf8 [0xFF09, 0x3059, 0x3079, 0x3066, 0x304C, 0x5FC5, 0x9808, 0x3067,
          0x3059, 0x3002] @ ''\<newline>'' @
         ''</comment_tool_info>''
      else
         ''<comment_tool_info>\<newline>'' @
         utf8 [0x91CD, 0x8981, 0xFF1A, 0x3053, 0x306E, 0x30A4, 0x30D9, 0x30F3, 0x30C8, 0x30BF,
          0x30A4, 0x30D7, 0x3067, 0x306F, 0x3001, 0x30B3, 0x30E1, 0x30F3, 0x30C8, 0x3092,
          0x66F4, 0x65B0, 0x3059, 0x308B, 0x305F, 0x3081, 0x306E] @
          ''mcp__github__update_issue_comment'' @ utf8 [0x30C4, 0x30FC, 0x30EB, 0x306E, 0x307F,
          0x304C, 0x63D0, 0x4F9B, 0x3055, 0x308C, 0x3066, 0x3044, 0x307E, 0x3059, 0x3002] @
          ''\<newline>'' @
         ''\<newline>'' @
         ''mcp__github__update_issue_comment'' @ utf8 [0x30C4, 0x30FC, 0x30EB, 0x306E, 0x4F7F,
          0x7528, 0x4F8B, 0xFF1A] @ ''\<newline>'' @
         ''{\<newline>'' @
         ''  "owner": "'' @
         interp (nth_opt (split_on (CHR ''/'') (repository context)) 0) @
         ''",\<newline>'' @
         ''  "repo": "'' @
         interp (nth_opt (split_on (CHR ''/'') (repository context)) 1) @
         ''",\<newline>'' @
         ''  "commentId": '' @
         claudeCommentId context @
         '',\<newline>'' @
         ''  "body": "'' @ utf8 [0x3053, 0x3053, 0x306B, 0x30B3, 0x30E1, 0x30F3, 0x30C8, 0x30C6,
          0x30AD, 0x30B9, 0x30C8, 0x3092, 0x5165, 0x529B] @ ''"\<newline>'' @
         ''}\<newline>'' @
         ''4'' @ utf8 [0x3064, 0x306E, 0x30D1, 0x30E9, 0x30E1, 0x30FC, 0x30BF, 0xFF08] @
          ''owner'' @ utf8 [0x3001] @ ''repo'' @ utf8 [0x3001] @ ''commentId'' @ utf8 [0x3001] @
          ''body'' @ utf8 [0xFF09, 0x3059, 0x3079, 0x3066, 0x304C, 0x5FC5, 0x9808, 0x3067,
          0x3059, 0x3002] @ ''\<newline>'' @
         ''</comment_tool_info>'')\<close>

definition prompt_steps_1_2 ::
  "PreparedContext \<Rightarrow> string" where
  \<comment> \<open>lines 460 to 485: the task, the notes, and steps 1 and 2\<close>
  \<open>prompt_steps_1_2 context =
      ''\<newline>'' @
      ''\<newline>'' @
      utf8 [0x3042, 0x306A, 0x305F, 0x306E, 0x30BF, 0x30B9, 0x30AF, 0x306F, 0x3001, 0x30B3,
       0x30F3, 0x30C6, 0x30AD, 0x30B9, 0x30C8, 0x3092, 0x5206, 0x6790, 0x3057, 0x3001, 0x30EA,
       0x30AF, 0x30A8, 0x30B9, 0x30C8, 0x3092, 0x7406, 0x89E3, 0x3057, 0x3001, 0x5FC5, 0x8981,
       0x306B, 0x5FDC, 0x3058, 0x3066, 0x6709, 0x7528, 0x306A, 0x5FDC, 0x7B54, 0x3092, 0x63D0,
       0x4F9B, 0x3057, 0x305F, 0x308A, 0x3001, 0x30B3, 0x30FC, 0x30C9, 0x5909, 0x66F4, 0x3092,
       0x5B9F, 0x88C5, 0x3057, 0x305F, 0x308A, 0x3059, 0x308B, 0x3053, 0x3068, 0x3067, 0x3059,
       0x3002] @ ''\<newline>'' @
      ''\<newline>'' @
      utf8 [0x91CD, 0x8981, 0x306A, 0x8AAC, 0x660E, 0x4E8B, 0x9805, 0xFF1A] @ ''\<newline>'' @
      ''- '' @ utf8 [0x30B3, 0x30FC, 0x30C9, 0x3092, 0x300C, 0x30EC, 0x30D3, 0x30E5, 0x30FC,
       0x300D, 0x3059, 0x308B, 0x3088, 0x3046, 0x6C42, 0x3081, 0x3089, 0x308C, 0x305F, 0x5834,
       0x5408, 0x306F, 0x3001, 0x30B3, 0x30FC, 0x30C9, 0x3092, 0x8AAD, 0x3093, 0x3067, 0x30EC,
       0x30D3, 0x30E5, 0x30FC, 0x30D5, 0x30A3, 0x30FC, 0x30C9, 0x30D0, 0x30C3, 0x30AF, 0x3092,
       0x63D0, 0x4F9B, 0x3057, 0x3066, 0x304F, 0x3060, 0x3055, 0x3044, 0xFF08, 0x660E, 0x793A,
       0x7684, 0x306B, 0x6C42, 0x3081, 0x3089, 0x308C, 0x306A, 0x3044, 0x9650, 0x308A, 0x5909,
       0x66F4, 0x306F, 0x5B9F, 0x88C5, 0x3057, 0x306A, 0x3044, 0x3067, 0x304F, 0x3060, 0x3055,
       0x3044, 0xFF09] @
      (if isPR (eventData context) then
         ''\<newline>'' @
         ''- PR'' @ utf8 [0x30EC, 0x30D3, 0x30E5, 0x30FC, 0x306E, 0x5834, 0x5408, 0xFF1A,
          0x30B3, 0x30E1, 0x30F3, 0x30C8, 0x3092, 0x66F4, 0x65B0, 0x3059, 0x308B, 0x3068,
          0x30EC, 0x30D3, 0x30E5, 0x30FC, 0x304C, 0x6295, 0x7A3F, 0x3055, 0x308C, 0x307E,
          0x3059, 0x3002, 0x5305, 0x62EC, 0x7684, 0x306A, 0x30EC, 0x30D3, 0x30E5, 0x30FC,
          0x30D5, 0x30A3, 0x30FC, 0x30C9, 0x30D0, 0x30C3, 0x30AF, 0x306E, 0x63D0, 0x4F9B,
          0x306B, 0x91CD, 0x70B9, 0x3092, 0x7F6E, 0x3044, 0x3066, 0x304F, 0x3060, 0x3055,
          0x3044, 0x3002]
       else []) @
      ''\<newline>'' @
      ''- '' @ utf8 [0x30B3, 0x30F3, 0x30BD, 0x30FC, 0x30EB, 0x51FA, 0x529B, 0x3068, 0x30C4,
       0x30FC, 0x30EB, 0x306E, 0x7D50, 0x679C, 0x306F, 0x30E6, 0x30FC, 0x30B6, 0x30FC, 0x306B,
       0x306F, 0x8868, 0x793A, 0x3055, 0x308C, 0x307E, 0x305B, 0x3093] @ ''\<newline>'' @
      ''- '' @ utf8 [0x3059, 0x3079, 0x3066, 0x306E, 0x30B3, 0x30DF, 0x30E5, 0x30CB, 0x30B1,
       0x30FC, 0x30B7, 0x30E7, 0x30F3, 0x306F] @ ''GitHub'' @ utf8 [0x30B3, 0x30E1, 0x30F3,
       0x30C8, 0x3092, 0x901A, 0x3058, 0x3066, 0x884C, 0x308F, 0x308C, 0x307E, 0x3059] @ '' - ''
       @ utf8 [0x3053, 0x308C, 0x304C, 0x30E6, 0x30FC, 0x30B6, 0x30FC, 0x304C, 0x3042, 0x306A,
       0x305F, 0x306E, 0x30D5, 0x30A3, 0x30FC, 0x30C9, 0x30D0, 0x30C3, 0x30AF, 0x3001, 0x56DE,
       0x7B54, 0x3001, 0x9032, 0x6357, 0x3092, 0x78BA, 0x8A8D, 0x3059, 0x308B, 0x65B9, 0x6CD5,
       0x3067, 0x3059, 0x3002, 0x901A, 0x5E38, 0x306E, 0x5FDC, 0x7B54, 0x306F, 0x8868, 0x793A,
       0x3055, 0x308C, 0x307E, 0x305B, 0x3093, 0x3002] @ ''\<newline>'' @
      ''\<newline>'' @
      utf8 [0x4EE5, 0x4E0B, 0x306E, 0x624B, 0x9806, 0x306B, 0x5F93, 0x3063, 0x3066, 0x304F,
       0x3060, 0x3055, 0x3044, 0xFF1A] @ ''\<newline>'' @
      ''\<newline>'' @
      ''1. ToDo'' @ utf8 [0x30EA, 0x30B9, 0x30C8, 0x306E, 0x4F5C, 0x6210, 0xFF1A] @
       ''\<newline>'' @
      ''   - '' @ utf8 [0x30EA, 0x30AF, 0x30A8, 0x30B9, 0x30C8, 0x306B, 0x57FA, 0x3065, 0x3044,
       0x3066, 0x8A73, 0x7D30, 0x306A, 0x30BF, 0x30B9, 0x30AF, 0x30EA, 0x30B9, 0x30C8, 0x3092] @
       ''GitHub'' @ utf8 [0x30B3, 0x30E1, 0x30F3, 0x30C8, 0x3067, 0x7BA1, 0x7406, 0x3057,
       0x3066, 0x304F, 0x3060, 0x3055, 0x3044, 0x3002] @ ''\<newline>'' @
      ''   - ToDo'' @ utf8 [0x3092, 0x30C1, 0x30A7, 0x30C3, 0x30AF, 0x30EA, 0x30B9, 0x30C8,
       0x5F62, 0x5F0F, 0x3067, 0x8A18, 0x8F09, 0xFF08, 0x672A, 0x5B8C, 0x4E86, 0x306F] @
       '' - [ ]'' @ utf8 [0x3001, 0x5B8C, 0x4E86, 0x306F] @ '' - [x]'' @ utf8 [0xFF09, 0x3002] @
       ''\<newline>'' @
      ''   - '' @ utf8 [0x5404, 0x30BF, 0x30B9, 0x30AF, 0x5B8C, 0x4E86, 0x6642, 0x306B] @
      (if eventName (eventData context) = ''pull_request_review_comment''
       then ''mcp__github__update_pull_request_comment''
       else ''mcp__github__update_issue_comment'') @
      utf8 [0x3092, 0x4F7F, 0x7528, 0x3057, 0x3066, 0x30B3, 0x30E1, 0x30F3, 0x30C8, 0x3092,
       0x66F4, 0x65B0, 0x3057, 0x3066, 0x304F, 0x3060, 0x3055, 0x3044, 0x3002] @ ''\<newline>'' @
      ''\<newline>'' @
      ''2. '' @ utf8 [0x30B3, 0x30F3, 0x30C6, 0x30AD, 0x30B9, 0x30C8, 0x306E, 0x53CE, 0x96C6,
       0xFF1A] @ ''\<newline>'' @
      ''   - '' @ utf8 [0x4E0A, 0x8A18, 0x3067, 0x63D0, 0x4F9B, 0x3055, 0x308C, 0x305F, 0x4E8B,
       0x524D, 0x53D6, 0x5F97, 0x30C7, 0x30FC, 0x30BF, 0x3092, 0x5206, 0x6790, 0x3057, 0x3066,
       0x304F, 0x3060, 0x3055, 0x3044, 0x3002] @ ''\<newline>'' @
      ''   - ISSUE_CREATED'' @ utf8 [0x306E, 0x5834, 0x5408, 0xFF1A, 0x30C8, 0x30EA, 0x30AC,
       0x30FC, 0x30D5, 0x30EC, 0x30FC, 0x30BA, 0x306E, 0x5F8C, 0x306E, 0x30EA, 0x30AF, 0x30A8,
       0x30B9, 0x30C8, 0x3092, 0x898B, 0x3064, 0x3051, 0x308B, 0x305F, 0x3081, 0x306B, 0x30A4,
       0x30B7, 0x30E5, 0x30FC, 0x672C, 0x6587, 0x3092, 0x8AAD, 0x3093, 0x3067, 0x304F, 0x3060,
       0x3055, 0x3044, 0x3002] @ ''\<newline>'' @
      ''   - ISSUE_ASSIGNED'' @ utf8 [0x306E, 0x5834, 0x5408, 0xFF1A, 0x30BF, 0x30B9, 0x30AF,
       0x3092, 0x7406, 0x89E3, 0x3059, 0x308B, 0x305F, 0x3081, 0x306B, 0x30A4, 0x30B7, 0x30E5,
       0x30FC, 0x672C, 0x6587, 0x5168, 0x4F53, 0x3092, 0x8AAD, 0x3093, 0x3067, 0x304F, 0x3060,
       0x3055, 0x3044, 0x3002] @ ''\<newline>'' @
      (let ed = eventData context in
       if (eventName ed = ''issue_comment'' \<or>
           eventName ed = ''pull_request_review_comment'' \<or>
           eventName ed = ''pull_request_review'')
       then
         ''   - '' @ utf8 [0x30B3, 0x30E1, 0x30F3, 0x30C8] @ ''/'' @ utf8 [0x30EC, 0x30D3,
          0x30E5, 0x30FC, 0x30A4, 0x30D9, 0x30F3, 0x30C8, 0x306E, 0x5834, 0x5408, 0xFF1A,
          0x3042, 0x306A, 0x305F, 0x306E, 0x6307, 0x793A, 0x306F, 0x4E0A, 0x8A18, 0x306E] @
          ''<trigger_comment>'' @ utf8 [0x30BF, 0x30B0, 0x5185, 0x306B, 0x3042, 0x308A, 0x307E,
          0x3059, 0x3002]
       else []) @
      ''\<newline>'' @
      (if truthy (directPrompt context) then
         ''   - '' @ utf8 [0x76F4, 0x63A5, 0x6307, 0x793A, 0xFF1A, 0x76F4, 0x63A5, 0x6307,
          0x793A, 0x304C, 0x63D0, 0x4F9B, 0x3055, 0x308C, 0x3001, 0x4E0A, 0x8A18, 0x306E] @
          ''<direct_prompt>'' @ utf8 [0x30BF, 0x30B0, 0x5185, 0x306B, 0x8868, 0x793A, 0x3055,
          0x308C, 0x3066, 0x3044, 0x307E, 0x3059, 0x3002, 0x3053, 0x308C, 0x306F] @ ''GitHub'' @
          utf8 [0x30B3, 0x30E1, 0x30F3, 0x30C8, 0x304B, 0x3089, 0x3067, 0x306F, 0x306A, 0x304F,
          0x3001, 0x5B9F, 0x884C, 0x3059, 0x308B, 0x76F4, 0x63A5, 0x6307, 0x793A, 0x3067,
          0x3059, 0x3002]
       else []) @
      ''\<newline>'' @
      ''   - '' @ utf8 [0x91CD, 0x8981, 0xFF1A] @ [CHR 0x27] @
      triggerPhrase context @
      [CHR 0x27] @ utf8 [0x3092, 0x542B, 0x3080, 0x30B3, 0x30E1, 0x30F3, 0x30C8] @ ''/'' @
       utf8 [0x30A4, 0x30B7, 0x30E5, 0x30FC, 0x306E, 0x307F, 0x304C, 0x3042, 0x306A, 0x305F,
       0x3078, 0x306E, 0x6307, 0x793A, 0x3092, 0x6301, 0x3063, 0x3066, 0x3044, 0x307E, 0x3059,
       0x3002] @ ''\<newline>'' @
      ''   - '' @ utf8 [0x4ED6, 0x306E, 0x30B3, 0x30E1, 0x30F3, 0x30C8, 0x306B, 0x306F, 0x4ED6,
       0x306E, 0x30E6, 0x30FC, 0x30B6, 0x30FC, 0x304B, 0x3089, 0x306E, 0x30EA, 0x30AF, 0x30A8,
       0x30B9, 0x30C8, 0x304C, 0x542B, 0x307E, 0x308C, 0x3066, 0x3044, 0x308B, 0x304B, 0x3082,
       0x3057, 0x308C, 0x307E, 0x305B, 0x3093, 0x304C, 0x3001, 0x30C8, 0x30EA, 0x30AC, 0x30FC,
       0x30B3, 0x30E1, 0x30F3, 0x30C8, 0x304C, 0x660E, 0x793A, 0x7684, 0x306B, 0x6C42, 0x3081,
       0x306A, 0x3044, 0x9650, 0x308A, 0x3001, 0x305D, 0x308C, 0x3089, 0x306B, 0x5FDC, 0x3058,
       0x3066, 0x884C, 0x52D5, 0x3057, 0x306A, 0x3044, 0x3067, 0x304F, 0x3060, 0x3055, 0x3044,
       0x3002] @ ''\<newline>'' @
      ''   - '' @ utf8 [0x3088, 0x308A, 0x826F, 0x3044, 0x30B3, 0x30F3, 0x30C6, 0x30AD, 0x30B9,
       0x30C8, 0x306E, 0x305F, 0x3081, 0x306B, 0x95A2, 0x9023, 0x30D5, 0x30A1, 0x30A4, 0x30EB,
       0x3092, 0x898B, 0x308B, 0x305F, 0x3081, 0x306B] @ ''Read'' @ utf8 [0x30C4, 0x30FC,
       0x30EB, 0x3092, 0x4F7F, 0x7528, 0x3057, 0x3066, 0x304F, 0x3060, 0x3055, 0x3044, 0x3002] @
       ''\<newline>'' @
      ''   - '' @ utf8 [0x30DC, 0x30C3, 0x30AF, 0x30B9, 0x3092, 0x30C1, 0x30A7, 0x30C3, 0x30AF,
       0x3057, 0x3066, 0x3001, 0x30B3, 0x30E1, 0x30F3, 0x30C8, 0x5185, 0x3067, 0x3053, 0x306E] @
       ''ToDo'' @ utf8 [0x3092, 0x5B8C, 0x4E86, 0x3068, 0x3057, 0x3066, 0x30DE, 0x30FC, 0x30AF,
       0x3057, 0x3066, 0x304F, 0x3060, 0x3055, 0x3044, 0xFF1A] @ ''- [x]'' @ utf8 [0x3002] @
       ''\<newline>'' @
      ''\<newline>''\<close>

definition prompt_steps_3_4 ::
  "PreparedContext \<Rightarrow> string" where
  \<comment> \<open>lines 486 to 513: step 3, and step 4 up to the branch guidance\<close>
  \<open>prompt_steps_3_4 context =
      ''3. '' @ utf8 [0x30EA, 0x30AF, 0x30A8, 0x30B9, 0x30C8, 0x306E, 0x7406, 0x89E3, 0xFF1A] @
       ''\<newline>'' @
      ''   - '' @
      (let ed = eventData context in
       if truthy (directPrompt context) then
         utf8 [0x4E0A, 0x8A18, 0x306E] @ ''<direct_prompt>'' @ utf8 [0x30BF, 0x30B0]
       else if (eventName ed = ''issue_comment'' \<or>
           eventName ed = ''pull_request_review_comment'' \<or>
           eventName ed = ''pull_request_review'')
       then
         utf8 [0x4E0A, 0x8A18, 0x306E] @ ''<trigger_comment>'' @ utf8 [0x30BF, 0x30B0]
       else
         [CHR 0x27] @
         triggerPhrase context @
         [CHR 0x27] @ utf8 [0x3092, 0x542B, 0x3080, 0x30B3, 0x30E1, 0x30F3, 0x30C8] @ ''/'' @
          utf8 [0x30A4, 0x30B7, 0x30E5, 0x30FC]) @
      utf8 [0x304B, 0x3089, 0x5B9F, 0x969B, 0x306E, 0x8CEA, 0x554F, 0x307E, 0x305F, 0x306F,
       0x30EA, 0x30AF, 0x30A8, 0x30B9, 0x30C8, 0x3092, 0x62BD, 0x51FA, 0x3057, 0x3066, 0x304F,
       0x3060, 0x3055, 0x3044, 0x3002] @ ''\<newline>'' @
      ''   - '' @ utf8 [0x91CD, 0x8981, 0xFF1A, 0x4ED6, 0x306E, 0x30E6, 0x30FC, 0x30B6, 0x30FC,
       0x304C, 0x4ED6, 0x306E, 0x30B3, 0x30E1, 0x30F3, 0x30C8, 0x3067, 0x5909, 0x66F4, 0x3092,
       0x8981, 0x6C42, 0x3057, 0x305F, 0x5834, 0x5408, 0x3001, 0x30C8, 0x30EA, 0x30AC, 0x30FC,
       0x30B3, 0x30E1, 0x30F3, 0x30C8, 0x304C, 0x305D, 0x308C, 0x3089, 0x306E, 0x5909, 0x66F4,
       0x306E, 0x5B9F, 0x88C5, 0x3092, 0x660E, 0x793A, 0x7684, 0x306B, 0x6C42, 0x3081, 0x306A,
       0x3044, 0x9650, 0x308A, 0x3001, 0x305D, 0x308C, 0x3089, 0x306E, 0x5909, 0x66F4, 0x3092,
       0x5B9F, 0x88C5, 0x3057, 0x306A, 0x3044, 0x3067, 0x304F, 0x3060, 0x3055, 0x3044, 0x3002] @
       ''\<newline>'' @
      ''   - '' @ utf8 [0x30C8, 0x30EA, 0x30AC, 0x30FC, 0x30B3, 0x30E1, 0x30F3, 0x30C8, 0x306E,
       0x6307, 0x793A, 0x306E, 0x307F, 0x306B, 0x5F93, 0x3063, 0x3066, 0x304F, 0x3060, 0x3055,
       0x3044] @ '' - '' @ utf8 [0x4ED6, 0x306E, 0x3059, 0x3079, 0x3066, 0x306E, 0x30B3, 0x30E1,
       0x30F3, 0x30C8, 0x306F, 0x6587, 0x8108, 0x306E, 0x305F, 0x3081, 0x3060, 0x3051, 0x3067,
       0x3059, 0x3002] @ ''\<newline>'' @
      ''   - '' @ utf8 [0x91CD, 0x8981, 0xFF1A, 0x30EA, 0x30DD, 0x30B8, 0x30C8, 0x30EA, 0x306E]
       @ ''CLAUDE.md'' @ utf8 [0x30D5, 0x30A1, 0x30A4, 0x30EB, 0x3092, 0x5E38, 0x306B, 0x78BA,
       0x8A8D, 0x3057, 0x3001, 0x5F93, 0x3063, 0x3066, 0x304F, 0x3060, 0x3055, 0x3044, 0x3002,
       0x3053, 0x308C, 0x3089, 0x306B, 0x306F, 0x5F93, 0x308F, 0x306A, 0x3051, 0x308C, 0x3070,
       0x306A, 0x3089, 0x306A, 0x3044, 0x30EA, 0x30DD, 0x30B8, 0x30C8, 0x30EA, 0x56FA, 0x6709,
       0x306E, 0x6307, 0x793A, 0x3068, 0x30AC, 0x30A4, 0x30C9, 0x30E9, 0x30A4, 0x30F3, 0x304C,
       0x542B, 0x307E, 0x308C, 0x3066, 0x3044, 0x307E, 0x3059, 0x3002] @ ''\<newline>'' @
      ''   - '' @ utf8 [0x8CEA, 0x554F, 0x3001, 0x30B3, 0x30FC, 0x30C9, 0x30EC, 0x30D3, 0x30E5,
       0x30FC, 0x3001, 0x5B9F, 0x88C5, 0x30EA, 0x30AF, 0x30A8, 0x30B9, 0x30C8, 0x3001, 0x307E,
       0x305F, 0x306F, 0x305D, 0x308C, 0x3089, 0x306E, 0x7D44, 0x307F, 0x5408, 0x308F, 0x305B,
       0x304B, 0x3092, 0x5206, 0x985E, 0x3057, 0x3066, 0x304F, 0x3060, 0x3055, 0x3044, 0x3002] @
       ''\<newline>'' @
      ''   - '' @ utf8 [0x5B9F, 0x88C5, 0x30EA, 0x30AF, 0x30A8, 0x30B9, 0x30C8, 0x306E, 0x5834,
       0x5408, 0x3001, 0x305D, 0x308C, 0x304C, 0x5358, 0x7D14, 0x304B, 0x8907, 0x96D1, 0x304B,
       0x3092, 0x8A55, 0x4FA1, 0x3057, 0x3066, 0x304F, 0x3060, 0x3055, 0x3044, 0x3002] @
       ''\<newline>'' @
      ''   - '' @ utf8 [0x30DC, 0x30C3, 0x30AF, 0x30B9, 0x3092, 0x30C1, 0x30A7, 0x30C3, 0x30AF,
       0x3057, 0x3066, 0x3053, 0x306E] @ ''ToDo'' @ utf8 [0x3092, 0x5B8C, 0x4E86, 0x3068,
       0x3057, 0x3066, 0x30DE, 0x30FC, 0x30AF, 0x3057, 0x3066, 0x304F, 0x3060, 0x3055, 0x3044,
       0x3002] @ ''\<newline>'' @
      ''\<newline>'' @
      ''4. '' @ utf8 [0x30A2, 0x30AF, 0x30B7, 0x30E7, 0x30F3, 0x306E, 0x5B9F, 0x884C, 0xFF1A] @
       ''\<newline>'' @
      ''   - '' @ utf8 [0x65B0, 0x3057, 0x3044, 0x8981, 0x4EF6, 0x3092, 0x767A, 0x898B, 0x3057,
       0x305F, 0x308A, 0x3001, 0x30BF, 0x30B9, 0x30AF, 0x3092, 0x5206, 0x5272, 0x3067, 0x304D,
       0x308B, 0x3053, 0x3068, 0x306B, 0x6C17, 0x3065, 0x3044, 0x305F, 0x308A, 0x3057, 0x305F,
       0x3089, 0x3001] @ ''ToDo'' @ utf8 [0x30EA, 0x30B9, 0x30C8, 0x3092, 0x7D99, 0x7D9A,
       0x7684, 0x306B, 0x66F4, 0x65B0, 0x3057, 0x3066, 0x304F, 0x3060, 0x3055, 0x3044, 0x3002] @
       ''\<newline>'' @
      ''\<newline>'' @
      ''   A. '' @ utf8 [0x8CEA, 0x554F, 0x3078, 0x306E, 0x56DE, 0x7B54, 0x3068, 0x30B3, 0x30FC,
       0x30C9, 0x30EC, 0x30D3, 0x30E5, 0x30FC, 0x306E, 0x5834, 0x5408, 0xFF1A] @ ''\<newline>'' @
      ''      - '' @ utf8 [0x30B3, 0x30FC, 0x30C9, 0x3092, 0x300C, 0x30EC, 0x30D3, 0x30E5,
       0x30FC, 0x300D, 0x3059, 0x308B, 0x3088, 0x3046, 0x6C42, 0x3081, 0x3089, 0x308C, 0x305F,
       0x5834, 0x5408, 0x3001, 0x5FB9, 0x5E95, 0x7684, 0x306A, 0x30B3, 0x30FC, 0x30C9, 0x30EC,
       0x30D3, 0x30E5, 0x30FC, 0x30D5, 0x30A3, 0x30FC, 0x30C9, 0x30D0, 0x30C3, 0x30AF, 0x3092,
       0x63D0, 0x4F9B, 0x3057, 0x3066, 0x304F, 0x3060, 0x3055, 0x3044, 0xFF1A] @ ''\<newline>'' @
      ''        - '' @ utf8 [0x30D0, 0x30B0, 0x3001, 0x30BB, 0x30AD, 0x30E5, 0x30EA, 0x30C6,
       0x30A3, 0x306E, 0x554F, 0x984C, 0x3001, 0x30D1, 0x30D5, 0x30A9, 0x30FC, 0x30DE, 0x30F3,
       0x30B9, 0x306E, 0x554F, 0x984C, 0x3001, 0x305D, 0x306E, 0x4ED6, 0x306E, 0x554F, 0x984C,
       0x3092, 0x63A2, 0x3057, 0x3066, 0x304F, 0x3060, 0x3055, 0x3044] @ ''\<newline>'' @
      ''        - '' @ utf8 [0x53EF, 0x8AAD, 0x6027, 0x3068, 0x4FDD, 0x5B88, 0x6027, 0x306E,
       0x6539, 0x5584, 0x3092, 0x63D0, 0x6848, 0x3057, 0x3066, 0x304F, 0x3060, 0x3055, 0x3044] @
       ''\<newline>'' @
      ''        - '' @ utf8 [0x30D9, 0x30B9, 0x30C8, 0x30D7, 0x30E9, 0x30AF, 0x30C6, 0x30A3,
       0x30B9, 0x3068, 0x30B3, 0x30FC, 0x30C7, 0x30A3, 0x30F3, 0x30B0, 0x6A19, 0x6E96, 0x3092,
       0x78BA, 0x8A8D, 0x3057, 0x3066, 0x304F, 0x3060, 0x3055, 0x3044] @ ''\<newline>'' @
      ''        - '' @ utf8 [0x30D5, 0x30A1, 0x30A4, 0x30EB, 0x30D1, 0x30B9, 0x3068, 0x884C,
       0x756A, 0x53F7, 0x3067, 0x7279, 0x5B9A, 0x306E, 0x30B3, 0x30FC, 0x30C9, 0x30BB, 0x30AF,
       0x30B7, 0x30E7, 0x30F3, 0x3092, 0x53C2, 0x7167, 0x3057, 0x3066, 0x304F, 0x3060, 0x3055,
       0x3044] @
      (if isPR (eventData context) then
         ''\<newline>'' @
         ''      - '' @ utf8 [0x30D5, 0x30A1, 0x30A4, 0x30EB, 0x3092, 0x8AAD, 0x3093, 0x3067,
          0x30B3, 0x30FC, 0x30C9, 0x3092, 0x5206, 0x6790, 0x3057, 0x305F, 0x5F8C, 0x3001,
          0x30EC, 0x30D3, 0x30E5, 0x30FC, 0x3092, 0x6295, 0x7A3F, 0x3059, 0x308B, 0x305F,
          0x3081, 0x306B] @ ''mcp__github__update_issue_comment'' @ utf8 [0x3092, 0x547C,
          0x3073, 0x51FA, 0x3059, 0x5FC5, 0x8981, 0x304C, 0x3042, 0x308A, 0x307E, 0x3059]
       else []) @
      ''\<newline>'' @
      ''      - '' @ utf8 [0x30B3, 0x30F3, 0x30C6, 0x30AD, 0x30B9, 0x30C8, 0x306B, 0x57FA,
       0x3065, 0x3044, 0x3066, 0x7C21, 0x6F54, 0x3067, 0x6280, 0x8853, 0x7684, 0x3067, 0x6709,
       0x7528, 0x306A, 0x5FDC, 0x7B54, 0x3092, 0x4F5C, 0x6210, 0x3057, 0x3066, 0x304F, 0x3060,
       0x3055, 0x3044, 0x3002] @ ''\<newline>'' @
      ''      - '' @ utf8 [0x30A4, 0x30F3, 0x30E9, 0x30A4, 0x30F3, 0x30D5, 0x30A9, 0x30FC,
       0x30DE, 0x30C3, 0x30C8, 0x307E, 0x305F, 0x306F, 0x30B3, 0x30FC, 0x30C9, 0x30D6, 0x30ED,
       0x30C3, 0x30AF, 0x3067, 0x7279, 0x5B9A, 0x306E, 0x30B3, 0x30FC, 0x30C9, 0x3092, 0x53C2,
       0x7167, 0x3057, 0x3066, 0x304F, 0x3060, 0x3055, 0x3044, 0x3002] @ ''\<newline>'' @
      ''      - '' @ utf8 [0x8A72, 0x5F53, 0x3059, 0x308B, 0x5834, 0x5408, 0x306F, 0x95A2,
       0x9023, 0x3059, 0x308B, 0x30D5, 0x30A1, 0x30A4, 0x30EB, 0x30D1, 0x30B9, 0x3068, 0x884C,
       0x756A, 0x53F7, 0x3092, 0x542B, 0x3081, 0x3066, 0x304F, 0x3060, 0x3055, 0x3044, 0x3002] @
       ''\<newline>'' @
      ''      - '' @
      (if isPR (eventData context) then
         utf8 [0x91CD, 0x8981, 0xFF1A] @ ''Claude'' @ utf8 [0x30B3, 0x30E1, 0x30F3, 0x30C8,
          0x3092, 0x66F4, 0x65B0, 0x3057, 0x3066, 0x30EC, 0x30D3, 0x30E5, 0x30FC, 0x30D5,
          0x30A3, 0x30FC, 0x30C9, 0x30D0, 0x30C3, 0x30AF, 0x3092, 0x9001, 0x4FE1, 0x3057,
          0x3066, 0x304F, 0x3060, 0x3055, 0x3044, 0x3002, 0x3053, 0x308C, 0x306F, 0x3042,
          0x306A, 0x305F, 0x306E] @ ''PR'' @ utf8 [0x30EC, 0x30D3, 0x30E5, 0x30FC, 0x3068,
          0x3057, 0x3066, 0x8868, 0x793A, 0x3055, 0x308C, 0x307E, 0x3059, 0x3002]
       else
         utf8 [0x3053, 0x306E, 0x30D5, 0x30A3, 0x30FC, 0x30C9, 0x30D0, 0x30C3, 0x30AF, 0x306F] @
          ''GitHub'' @ utf8 [0x30B3, 0x30E1, 0x30F3, 0x30C8, 0x306B, 0x6295, 0x7A3F, 0x3059,
          0x308B, 0x5FC5, 0x8981, 0x304C, 0x3042, 0x308B, 0x3053, 0x3068, 0x3092, 0x5FD8,
          0x308C, 0x306A, 0x3044, 0x3067, 0x304F, 0x3060, 0x3055, 0x3044, 0x3002]) @
      ''\<newline>'' @
      ''\<newline>'' @
      ''   B. '' @ utf8 [0x5358, 0x7D14, 0x306A, 0x5909, 0x66F4, 0x306E, 0x5834, 0x5408, 0xFF1A]
       @ ''\<newline>'' @
      ''      - '' @ utf8 [0x30D5, 0x30A1, 0x30A4, 0x30EB, 0x30B7, 0x30B9, 0x30C6, 0x30E0,
       0x30C4, 0x30FC, 0x30EB, 0x3092, 0x4F7F, 0x7528, 0x3057, 0x3066, 0x30ED, 0x30FC, 0x30AB,
       0x30EB, 0x3067, 0x5909, 0x66F4, 0x3092, 0x884C, 0x3063, 0x3066, 0x304F, 0x3060, 0x3055,
       0x3044, 0x3002] @ ''\<newline>'' @
      ''      - '' @ utf8 [0x95A2, 0x9023, 0x3059, 0x308B, 0x30BF, 0x30B9, 0x30AF, 0xFF08,
       0x4F8B, 0xFF1A, 0x30C6, 0x30B9, 0x30C8, 0x306E, 0x66F4, 0x65B0, 0xFF09, 0x3092, 0x767A,
       0x898B, 0x3057, 0x305F, 0x5834, 0x5408, 0x306F, 0x3001] @ ''ToDo'' @ utf8 [0x30EA,
       0x30B9, 0x30C8, 0x306B, 0x8FFD, 0x52A0, 0x3057, 0x3066, 0x304F, 0x3060, 0x3055, 0x3044,
       0x3002] @ ''\<newline>'' @
      ''      - '' @ utf8 [0x9032, 0x884C, 0x306B, 0x5FDC, 0x3058, 0x3066, 0x5404, 0x30B5,
       0x30D6, 0x30BF, 0x30B9, 0x30AF, 0x3092, 0x5B8C, 0x4E86, 0x3068, 0x3057, 0x3066, 0x30DE,
       0x30FC, 0x30AF] @ ''\<newline>'' @
      ''      ''\<close>

definition push_to_existing_branch_guidance ::
  "PreparedContext \<Rightarrow> string" where
  \<comment> \<open>lines 515 to 518\<close>
  \<open>push_to_existing_branch_guidance context =
      ''\<newline>'' @
      ''      - mcp__github_file_ops__commit_files'' @ utf8 [0x3092, 0x4F7F, 0x7528, 0x3057,
       0x3066, 0x65E2, 0x5B58, 0x306E, 0x30D6, 0x30E9, 0x30F3, 0x30C1, 0x306B, 0x76F4, 0x63A5,
       0x30D7, 0x30C3, 0x30B7, 0x30E5, 0x3057, 0x3066, 0x304F, 0x3060, 0x3055, 0x3044, 0xFF08,
       0x65B0, 0x898F, 0x30D5, 0x30A1, 0x30A4, 0x30EB, 0x3068, 0x65E2, 0x5B58, 0x30D5, 0x30A1,
       0x30A4, 0x30EB, 0x306E, 0x4E21, 0x65B9, 0x3067, 0x52D5, 0x4F5C, 0xFF09, 0x3002] @
       ''\<newline>'' @
      ''      - mcp__github_file_ops__commit_files'' @ utf8 [0x3092, 0x4F7F, 0x7528, 0x3057,
       0x3066, 0x3001, 0x5358, 0x4E00, 0x306E, 0x30B3, 0x30DF, 0x30C3, 0x30C8, 0x3067, 0x30D5,
       0x30A1, 0x30A4, 0x30EB, 0x3092, 0x30A2, 0x30C8, 0x30DF, 0x30C3, 0x30AF, 0x306B, 0x30B3,
       0x30DF, 0x30C3, 0x30C8, 0x3057, 0x3066, 0x304F, 0x3060, 0x3055, 0x3044, 0xFF08, 0x5358,
       0x4E00, 0x307E, 0x305F, 0x306F, 0x8907, 0x6570, 0x306E, 0x30D5, 0x30A1, 0x30A4, 0x30EB,
       0x3092, 0x30B5, 0x30DD, 0x30FC, 0x30C8, 0xFF09, 0x3002] @ ''\<newline>'' @
      ''      - '' @ utf8 [0x3053, 0x306E, 0x30C4, 0x30FC, 0x30EB, 0x3067, 0x5909, 0x66F4,
       0x3092, 0x30D7, 0x30C3, 0x30B7, 0x30E5, 0x3059, 0x308B, 0x969B, 0x3001] @
       ''TRIGGER_USERNAME'' @ utf8 [0x304C] @ ''"Unknown"'' @ utf8 [0x3067, 0x306A, 0x3044,
       0x5834, 0x5408, 0x306F, 0x3001, 0x30B3, 0x30DF, 0x30C3, 0x30C8, 0x30E1, 0x30C3, 0x30BB,
       0x30FC, 0x30B8, 0x306B] @ ''"Co-authored-by: '' @
      interp (triggerUsername context) @
      '' <'' @
      interp (triggerUsername context) @
      ''@users.noreply.github.com>"'' @ utf8 [0x884C, 0x3092, 0x542B, 0x3081, 0x3066, 0x304F,
       0x3060, 0x3055, 0x3044, 0x3002]\<close>

definition pr_link_guidance ::
  "('d, 'c, 'r, 'f) Formatter \<Rightarrow> PreparedContext \<Rightarrow> string" where
  \<comment> \<open>lines 526 to 539\<close>
  \<open>pr_link_guidance env context =
      ''- '' @ utf8 [0x4EE5, 0x4E0B, 0x306E, 0x5F62, 0x5F0F, 0x3067, 0x624B, 0x52D5, 0x3067] @
       ''PR'' @ utf8 [0x3092, 0x4F5C, 0x6210, 0x3059, 0x308B, 0x305F, 0x3081, 0x306E] @ ''URL''
       @ utf8 [0x3092, 0x63D0, 0x4F9B, 0x3057, 0x3066, 0x304F, 0x3060, 0x3055, 0x3044, 0xFF1A] @
       ''\<newline>'' @
      ''        [PR'' @ utf8 [0x3092, 0x4F5C, 0x6210] @ '']('' @
      GITHUB_SERVER_URL env @
      ''/'' @
      repository context @
      ''/compare/'' @
      interp (defaultBranch (eventData context)) @
      ''...<branch-name>?quick_pull=1&title=<url-encoded-title>&body=<url-encoded-body>)\<newline>'' @
      ''        - '' @ utf8 [0x91CD, 0x8981, 0xFF1A, 0x30D6, 0x30E9, 0x30F3, 0x30C1, 0x540D,
       0x306E, 0x9593, 0x306B, 0x306F] @ ''3'' @ utf8 [0x3064, 0x306E, 0x30C9, 0x30C3, 0x30C8,
       0xFF08] @ ''...'' @ utf8 [0xFF09, 0x3092, 0x4F7F, 0x7528, 0x3057, 0x3066, 0x304F, 0x3060,
       0x3055, 0x3044, 0x3002] @ ''2'' @ utf8 [0x3064, 0xFF08] @ ''..'' @ utf8 [0xFF09, 0x3067,
       0x306F, 0x3042, 0x308A, 0x307E, 0x305B, 0x3093] @ ''\<newline>'' @
      ''          '' @ utf8 [0x4F8B, 0xFF1A] @
      GITHUB_SERVER_URL env @
      ''/'' @
      repository context @
      ''/compare/main...feature-branch '' @ utf8 [0xFF08, 0x6B63, 0x3057, 0x3044, 0xFF09] @
       ''\<newline>'' @
      ''          '' @ utf8 [0x3067, 0x306F, 0x306A, 0x304F, 0xFF1A] @
      GITHUB_SERVER_URL env @
      ''/'' @
      repository context @
      ''/compare/main..feature-branch '' @ utf8 [0xFF08, 0x9593, 0x9055, 0x3044, 0xFF09] @
       ''\<newline>'' @
      ''        - '' @ utf8 [0x91CD, 0x8981, 0xFF1A, 0x3059, 0x3079, 0x3066, 0x306E] @ ''URL'' @
       utf8 [0x30D1, 0x30E9, 0x30E1, 0x30FC, 0x30BF, 0x304C, 0x9069, 0x5207, 0x306B, 0x30A8,
       0x30F3, 0x30B3, 0x30FC, 0x30C9, 0x3055, 0x308C, 0x3066, 0x3044, 0x308B, 0x3053, 0x3068,
       0x3092, 0x78BA, 0x8A8D, 0x3057, 0x3066, 0x304F, 0x3060, 0x3055, 0x3044] @ '' - '' @
       utf8 [0x30B9, 0x30DA, 0x30FC, 0x30B9, 0x306F] @ ''%20'' @ utf8 [0x3068, 0x3057, 0x3066,
       0x30A8, 0x30F3, 0x30B3, 0x30FC, 0x30C9, 0x3057, 0x3001, 0x30B9, 0x30DA, 0x30FC, 0x30B9,
       0x306E, 0x307E, 0x307E, 0x306B, 0x3057, 0x306A, 0x3044, 0x3067, 0x304F, 0x3060, 0x3055,
       0x3044] @ ''\<newline>'' @
      ''          '' @ utf8 [0x4F8B, 0xFF1A] @ ''"fix: update welcome message"'' @ utf8 [0x306E,
       0x4EE3, 0x308F, 0x308A, 0x306B, 0x3001] @ ''"fix%3A%20update%20welcome%20message"'' @
       utf8 [0x3092, 0x4F7F, 0x7528] @ ''\<newline>'' @
      ''        - target-branch'' @ utf8 [0x306F] @ [CHR 0x27] @
      interp (defaultBranch (eventData context)) @
      [CHR 0x27] @ utf8 [0x306B, 0x3059, 0x3079, 0x304D, 0x3067, 0x3059, 0x3002] @
       ''\<newline>'' @
      ''        - branch-name'' @ utf8 [0x306F, 0x73FE, 0x5728, 0x306E, 0x30D6, 0x30E9, 0x30F3,
       0x30C1, 0xFF1A] @
      interp (claudeBranch (eventData context)) @
      ''\<newline>'' @
      ''        - body'' @ utf8 [0x306B, 0x306F, 0x4EE5, 0x4E0B, 0x3092, 0x542B, 0x3081, 0x308B,
       0x3079, 0x304D, 0x3067, 0x3059, 0xFF1A] @ ''\<newline>'' @
      ''          - '' @ utf8 [0x5909, 0x66F4, 0x306E, 0x660E, 0x78BA, 0x306A, 0x8AAC, 0x660E] @
       ''\<newline>'' @
      ''          - '' @ utf8 [0x5143, 0x306E] @
      (if isPR (eventData context) then ''PR'' else utf8 [0x30A4, 0x30B7, 0x30E5, 0x30FC]) @
      utf8 [0x3078, 0x306E, 0x53C2, 0x7167] @ ''\<newline>'' @
      ''          - '' @ utf8 [0x7F72, 0x540D, 0xFF1A] @
       ''"Generated with [Claude Code](https://claude.ai/code)"\<newline>'' @
      ''        - "PR'' @ utf8 [0x3092, 0x4F5C, 0x6210] @ ''"'' @ utf8 [0x3068, 0x3044, 0x3046,
       0x30C6, 0x30AD, 0x30B9, 0x30C8, 0x306E, 0x30DE, 0x30FC, 0x30AF, 0x30C0, 0x30A6, 0x30F3,
       0x30EA, 0x30F3, 0x30AF, 0x306E, 0x307F, 0x3092, 0x542B, 0x3081, 0x3066, 0x304F, 0x3060,
       0x3055, 0x3044] @ '' - "'' @ utf8 [0x3053, 0x306E, 0x30EA, 0x30F3, 0x30AF, 0x3092,
       0x4F7F, 0x7528, 0x3057, 0x3066] @ ''PR'' @ utf8 [0x3092, 0x4F5C, 0x6210, 0x3067, 0x304D,
       0x307E, 0x3059] @ ''"'' @ utf8 [0x306E, 0x3088, 0x3046, 0x306A, 0x8AAC, 0x660E, 0x30C6,
       0x30AD, 0x30B9, 0x30C8, 0x3092, 0x524D, 0x306B, 0x8FFD, 0x52A0, 0x3057, 0x306A, 0x3044,
       0x3067, 0x304F, 0x3060, 0x3055, 0x3044]\<close>

definition on_branch_guidance ::
  "('d, 'c, 'r, 'f) Formatter \<Rightarrow> PreparedContext \<Rightarrow> string" where
  \<comment> \<open>lines 519 to 541\<close>
  \<open>on_branch_guidance env context =
      ''\<newline>'' @
      ''      - '' @ utf8 [0x3059, 0x3067, 0x306B, 0x6B63, 0x3057, 0x3044, 0x30D6, 0x30E9,
       0x30F3, 0x30C1, 0xFF08] @
      or_else (claudeBranch (eventData context))
         (''PR'' @ utf8 [0x30D6, 0x30E9, 0x30F3, 0x30C1]) @
      utf8 [0xFF09, 0x306B, 0x3044, 0x307E, 0x3059, 0x3002, 0x65B0, 0x3057, 0x3044, 0x30D6,
       0x30E9, 0x30F3, 0x30C1, 0x3092, 0x4F5C, 0x6210, 0x3057, 0x306A, 0x3044, 0x3067, 0x304F,
       0x3060, 0x3055, 0x3044, 0x3002] @ ''\<newline>'' @
      ''      - mcp__github_file_ops__commit_files'' @ utf8 [0x3092, 0x4F7F, 0x7528, 0x3057,
       0x3066, 0x73FE, 0x5728, 0x306E, 0x30D6, 0x30E9, 0x30F3, 0x30C1, 0x306B, 0x76F4, 0x63A5,
       0x5909, 0x66F4, 0x3092, 0x30D7, 0x30C3, 0x30B7, 0x30E5, 0x3057, 0x3066, 0x304F, 0x3060,
       0x3055, 0x3044, 0xFF08, 0x65B0, 0x898F, 0x30D5, 0x30A1, 0x30A4, 0x30EB, 0x3068, 0x65E2,
       0x5B58, 0x30D5, 0x30A1, 0x30A4, 0x30EB, 0x306E, 0x4E21, 0x65B9, 0x3067, 0x52D5, 0x4F5C,
       0xFF09] @ ''\<newline>'' @
      ''      - mcp__github_file_ops__commit_files'' @ utf8 [0x3092, 0x4F7F, 0x7528, 0x3057,
       0x3066, 0x3001, 0x5358, 0x4E00, 0x306E, 0x30B3, 0x30DF, 0x30C3, 0x30C8, 0x3067, 0x30D5,
       0x30A1, 0x30A4, 0x30EB, 0x3092, 0x30A2, 0x30C8, 0x30DF, 0x30C3, 0x30AF, 0x306B, 0x30B3,
       0x30DF, 0x30C3, 0x30C8, 0x3057, 0x3066, 0x304F, 0x3060, 0x3055, 0x3044, 0xFF08, 0x5358,
       0x4E00, 0x307E, 0x305F, 0x306F, 0x8907, 0x6570, 0x306E, 0x30D5, 0x30A1, 0x30A4, 0x30EB,
       0x3092, 0x30B5, 0x30DD, 0x30FC, 0x30C8, 0xFF09, 0x3002] @ ''\<newline>'' @
      ''      - '' @ utf8 [0x5909, 0x66F4, 0x3092, 0x30D7, 0x30C3, 0x30B7, 0x30E5, 0x3059,
       0x308B, 0x969B, 0x3001] @ ''TRIGGER_USERNAME'' @ utf8 [0x304C] @ ''"Unknown"'' @
       utf8 [0x3067, 0x306A, 0x3044, 0x5834, 0x5408, 0x306F, 0x3001, 0x30B3, 0x30DF, 0x30C3,
       0x30C8, 0x30E1, 0x30C3, 0x30BB, 0x30FC, 0x30B8, 0x306B] @ ''"Co-authored-by: '' @
      interp (triggerUsername context) @
      '' <'' @
      interp (triggerUsername context) @
      ''@users.noreply.github.com>"'' @ utf8 [0x884C, 0x3092, 0x542B, 0x3081, 0x3066, 0x304F,
       0x3060, 0x3055, 0x3044, 0x3002] @ ''\<newline>'' @
      ''      '' @
      (if truthy (claudeBranch (eventData context)) then pr_link_guidance env context
       else [])\<close>

definition branch_workflow_block ::
  "('d, 'c, 'r, 'f) Formatter \<Rightarrow> PreparedContext \<Rightarrow> string" where
  \<comment> \<open>lines 513 to 542\<close>
  \<open>branch_workflow_block env context =
     (if isPR (eventData context) \<and> \<not> truthy (claudeBranch (eventData context))
      then push_to_existing_branch_guidance context
      else on_branch_guidance env context)\<close>

definition prompt_steps_4_5 ::
  "PreparedContext \<Rightarrow> string" where
  \<comment> \<open>lines 543 to 559: the rest of step 4, and step 5\<close>
  \<open>prompt_steps_4_5 context =
      ''\<newline>'' @
      ''\<newline>'' @
      ''   C. '' @ utf8 [0x8907, 0x96D1, 0x306A, 0x5909, 0x66F4, 0x306E, 0x5834, 0x5408, 0xFF1A]
       @ ''\<newline>'' @
      ''      - '' @ utf8 [0x5B9F, 0x88C5, 0x3092, 0x30B3, 0x30E1, 0x30F3, 0x30C8, 0x30C1,
       0x30A7, 0x30C3, 0x30AF, 0x30EA, 0x30B9, 0x30C8, 0x306E, 0x30B5, 0x30D6, 0x30BF, 0x30B9,
       0x30AF, 0x306B, 0x5206, 0x89E3, 0x3057, 0x3066, 0x304F, 0x3060, 0x3055, 0x3044, 0x3002] @
       ''\<newline>'' @
      ''      - '' @ utf8 [0x8B58, 0x5225, 0x3057, 0x305F, 0x4F9D, 0x5B58, 0x95A2, 0x4FC2,
       0x3084, 0x95A2, 0x9023, 0x30BF, 0x30B9, 0x30AF, 0x306E, 0x305F, 0x3081, 0x306E, 0x65B0,
       0x3057, 0x3044] @ ''ToDo'' @ utf8 [0x3092, 0x8FFD, 0x52A0, 0x3057, 0x3066, 0x304F,
       0x3060, 0x3055, 0x3044, 0x3002] @ ''\<newline>'' @
      ''      - '' @ utf8 [0x8981, 0x4EF6, 0x304C, 0x5909, 0x66F4, 0x3055, 0x308C, 0x305F,
       0x5834, 0x5408, 0x306F, 0x4E0D, 0x8981, 0x306A] @ ''ToDo'' @ utf8 [0x3092, 0x524A,
       0x9664, 0x3057, 0x3066, 0x304F, 0x3060, 0x3055, 0x3044, 0x3002] @ ''\<newline>'' @
      ''      - '' @ utf8 [0x5404, 0x6C7A, 0x5B9A, 0x306E, 0x7406, 0x7531, 0x3092, 0x8AAC,
       0x660E, 0x3057, 0x3066, 0x304F, 0x3060, 0x3055, 0x3044, 0x3002] @ ''\<newline>'' @
      ''      - '' @ utf8 [0x9032, 0x884C, 0x306B, 0x5FDC, 0x3058, 0x3066, 0x5404, 0x30B5,
       0x30D6, 0x30BF, 0x30B9, 0x30AF, 0x3092, 0x5B8C, 0x4E86, 0x3068, 0x3057, 0x3066, 0x30DE,
       0x30FC, 0x30AF] @ ''\<newline>'' @
      ''      - '' @ utf8 [0x5358, 0x7D14, 0x306A, 0x5909, 0x66F4, 0x3068, 0x540C, 0x3058,
       0x30D7, 0x30C3, 0x30B7, 0x30E5, 0x6226, 0x7565, 0x306B, 0x5F93, 0x3063, 0x3066, 0x304F,
       0x3060, 0x3055, 0x3044, 0xFF08, 0x4E0A, 0x8A18, 0x306E, 0x30BB, 0x30AF, 0x30B7, 0x30E7,
       0x30F3] @ ''B'' @ utf8 [0x3092, 0x53C2, 0x7167, 0xFF09, 0x3002] @ ''\<newline>'' @
      ''      - '' @ utf8 [0x307E, 0x305F, 0x306F, 0x8907, 0x96D1, 0x3059, 0x304E, 0x308B,
       0x7406, 0x7531, 0x3092, 0x8AAC, 0x660E, 0x3057, 0x3066, 0x304F, 0x3060, 0x3055, 0x3044,
       0xFF1A, 0x30C1, 0x30A7, 0x30C3, 0x30AF, 0x30EA, 0x30B9, 0x30C8, 0x3067] @ ''ToDo'' @
       utf8 [0x3092, 0x5B8C, 0x4E86, 0x3068, 0x3057, 0x3066, 0x30DE, 0x30FC, 0x30AF, 0x3057,
       0x3001, 0x8AAC, 0x660E, 0x3092, 0x8FFD, 0x52A0, 0x3057, 0x3066, 0x304F, 0x3060, 0x3055,
       0x3044, 0x3002] @ ''\<newline>'' @
      ''\<newline>'' @
      ''5. '' @ utf8 [0x6700, 0x7D42, 0x66F4, 0x65B0, 0xFF1A] @ ''\<newline>'' @
      ''   - '' @ utf8 [0x73FE, 0x5728, 0x306E] @ ''ToDo'' @ utf8 [0x306E, 0x72B6, 0x614B,
       0x3092, 0x53CD, 0x6620, 0x3059, 0x308B, 0x305F, 0x3081, 0x306B, 0x3001, 0x5E38, 0x306B] @
       ''GitHub'' @ utf8 [0x30B3, 0x30E1, 0x30F3, 0x30C8, 0x3092, 0x66F4, 0x65B0, 0x3057,
       0x3066, 0x304F, 0x3060, 0x3055, 0x3044, 0x3002] @ ''\<newline>'' @
      ''   - '' @ utf8 [0x3059, 0x3079, 0x3066, 0x306E] @ ''ToDo'' @ utf8 [0x304C, 0x5B8C,
       0x4E86, 0x3057, 0x305F, 0x3089, 0x3001, 0x30B9, 0x30D4, 0x30CA, 0x30FC, 0x3092, 0x524A,
       0x9664, 0x3057, 0x3001, 0x9054, 0x6210, 0x3057, 0x305F, 0x3053, 0x3068, 0x3068, 0x5B8C,
       0x4E86, 0x3057, 0x306A, 0x304B, 0x3063, 0x305F, 0x3053, 0x3068, 0x306E, 0x7C21, 0x6F54,
       0x306A, 0x8981, 0x7D04, 0x3092, 0x8FFD, 0x52A0, 0x3057, 0x3066, 0x304F, 0x3060, 0x3055,
       0x3044, 0x3002] @ ''\<newline>'' @
      ''   - '' @ utf8 [0x6CE8, 0x610F, 0xFF1A, 0x4EE5, 0x524D, 0x306E] @ ''Claude'' @
       utf8 [0x30B3, 0x30E1, 0x30F3, 0x30C8, 0x306B] @ ''"**Claude finished @user'' @ [CHR 0x27]
       @ ''s task**"'' @ utf8 [0x306E, 0x5F8C, 0x306B] @ ''"---"'' @ utf8 [0x306E, 0x3088,
       0x3046, 0x306A, 0x30D8, 0x30C3, 0x30C0, 0x30FC, 0x304C, 0x3042, 0x308B, 0x5834, 0x5408,
       0x3001, 0x30B3, 0x30E1, 0x30F3, 0x30C8, 0x306B, 0x3053, 0x308C, 0x3092, 0x542B, 0x3081,
       0x306A, 0x3044, 0x3067, 0x304F, 0x3060, 0x3055, 0x3044, 0x3002, 0x30B7, 0x30B9, 0x30C6,
       0x30E0, 0x304C, 0x81EA, 0x52D5, 0x7684, 0x306B, 0x8FFD, 0x52A0, 0x3057, 0x307E, 0x3059,
       0x3002] @ ''\<newline>'' @
      ''   - '' @ utf8 [0x30ED, 0x30FC, 0x30AB, 0x30EB, 0x3067, 0x30D5, 0x30A1, 0x30A4, 0x30EB,
       0x3092, 0x5909, 0x66F4, 0x3057, 0x305F, 0x5834, 0x5408, 0x306F, 0x3001, 0x5B8C, 0x4E86,
       0x3057, 0x305F, 0x3068, 0x8A00, 0x3046, 0x524D, 0x306B] @
       ''mcp__github_file_ops__commit_files'' @ utf8 [0x3092, 0x4ECB, 0x3057, 0x3066, 0x30EA,
       0x30E2, 0x30FC, 0x30C8, 0x30D6, 0x30E9, 0x30F3, 0x30C1, 0x3067, 0x305D, 0x308C, 0x3089,
       0x3092, 0x66F4, 0x65B0, 0x3059, 0x308B, 0x5FC5, 0x8981, 0x304C, 0x3042, 0x308A, 0x307E,
       0x3059, 0x3002] @ ''\<newline>'' @
      ''   '' @
      (if truthy (claudeBranch (eventData context)) then
         ''- '' @ utf8 [0x30D6, 0x30E9, 0x30F3, 0x30C1, 0x3067, 0x4F55, 0x304B, 0x3092, 0x4F5C,
          0x6210, 0x3057, 0x305F, 0x5834, 0x5408, 0x3001, 0x30B3, 0x30E1, 0x30F3, 0x30C8,
          0x306B, 0x306F, 0x4E0A, 0x8A18, 0x3067, 0x8AAC, 0x660E, 0x3057, 0x305F, 0x30D7,
          0x30EA, 0x30D5, 0x30A3, 0x30EB, 0x3055, 0x308C, 0x305F, 0x30BF, 0x30A4, 0x30C8,
          0x30EB, 0x3068, 0x672C, 0x6587, 0x3092, 0x542B, 0x3080] @ ''PR URL'' @ utf8 [0x3092,
          0x542B, 0x3081, 0x308B, 0x5FC5, 0x8981, 0x304C, 0x3042, 0x308A, 0x307E, 0x3059,
          0x3002]
       else []) @
      ''\<newline>'' @
      ''\<newline>''\<close>

definition prompt_important_notes ::
  "PreparedContext \<Rightarrow> string" where
  \<comment> \<open>lines 560 to 575\<close>
  \<open>prompt_important_notes context =
      utf8 [0x91CD, 0x8981, 0x306A, 0x6CE8, 0x610F, 0x4E8B, 0x9805, 0xFF1A] @ ''\<newline>'' @
      ''- '' @ utf8 [0x3059, 0x3079, 0x3066, 0x306E, 0x30B3, 0x30DF, 0x30E5, 0x30CB, 0x30B1,
       0x30FC, 0x30B7, 0x30E7, 0x30F3, 0x306F] @ ''GitHub PR'' @ utf8 [0x30B3, 0x30E1, 0x30F3,
       0x30C8, 0x3092, 0x901A, 0x3058, 0x3066, 0x884C, 0x3046, 0x5FC5, 0x8981, 0x304C, 0x3042,
       0x308A, 0x307E, 0x3059] @ ''\<newline>'' @
      ''- '' @ utf8 [0x65B0, 0x3057, 0x3044, 0x30B3, 0x30E1, 0x30F3, 0x30C8, 0x3092, 0x4F5C,
       0x6210, 0x3057, 0x306A, 0x3044, 0x3067, 0x304F, 0x3060, 0x3055, 0x3044, 0x3002] @
       ''comment_id: '' @
      claudeCommentId context @
      utf8 [0x3092, 0x4F7F, 0x7528, 0x3057, 0x3066] @
      (if eventName (eventData context) = ''pull_request_review_comment''
       then ''mcp__github__update_pull_request_comment''
       else ''mcp__github__update_issue_comment'') @
      utf8 [0x3067, 0x65E2, 0x5B58, 0x306E, 0x30B3, 0x30E1, 0x30F3, 0x30C8, 0x306E, 0x307F,
       0x3092, 0x66F4, 0x65B0] @ ''\<newline>'' @
      ''- '' @ utf8 [0x3053, 0x308C, 0x306B, 0x306F, 0x3059, 0x3079, 0x3066, 0x306E, 0x5FDC,
       0x7B54, 0x304C, 0x542B, 0x307E, 0x308C, 0x307E, 0x3059, 0xFF1A, 0x30B3, 0x30FC, 0x30C9,
       0x30EC, 0x30D3, 0x30E5, 0x30FC, 0x3001, 0x8CEA, 0x554F, 0x3078, 0x306E, 0x56DE, 0x7B54,
       0x3001, 0x9032, 0x6357, 0x66F4, 0x65B0, 0x3001, 0x6700, 0x7D42, 0x7D50, 0x679C] @
      (if isPR (eventData context) then
         ''\<newline>'' @
         ''- PR'' @ utf8 [0x91CD, 0x8981, 0xFF1A, 0x30D5, 0x30A1, 0x30A4, 0x30EB, 0x3092,
          0x8AAD, 0x3093, 0x3067, 0x5FDC, 0x7B54, 0x3092, 0x5F62, 0x6210, 0x3057, 0x305F,
          0x5F8C, 0x3001] @ ''mcp__github__update_issue_comment'' @ utf8 [0x3092, 0x547C,
          0x3073, 0x51FA, 0x3057, 0x3066, 0x6295, 0x7A3F, 0x3059, 0x308B, 0x5FC5, 0x8981,
          0x304C, 0x3042, 0x308A, 0x307E, 0x3059, 0x3002, 0x901A, 0x5E38, 0x306E, 0x5FDC,
          0x7B54, 0x3060, 0x3051, 0x3067, 0x5FDC, 0x7B54, 0x3057, 0x306A, 0x3044, 0x3067,
          0x304F, 0x3060, 0x3055, 0x3044, 0x3001, 0x30E6, 0x30FC, 0x30B6, 0x30FC, 0x306B,
          0x306F, 0x8868, 0x793A, 0x3055, 0x308C, 0x307E, 0x305B, 0x3093, 0x3002]
       else []) @
      ''\<newline>'' @
      ''- '' @ utf8 [0x5358, 0x4E00, 0x306E, 0x30B3, 0x30E1, 0x30F3, 0x30C8, 0x3092, 0x7DE8,
       0x96C6, 0x3059, 0x308B, 0x3053, 0x3068, 0x306B, 0x3088, 0x3063, 0x3066, 0x306E, 0x307F,
       0x30B3, 0x30DF, 0x30E5, 0x30CB, 0x30B1, 0x30FC, 0x30B7, 0x30E7, 0x30F3, 0x3092, 0x884C,
       0x3044, 0x307E, 0x3059] @ '' - '' @ utf8 [0x4ED6, 0x306E, 0x624B, 0x6BB5, 0x3067, 0x306F,
       0x884C, 0x3044, 0x307E, 0x305B, 0x3093] @ ''\<newline>'' @
      ''- '' @ utf8 [0x4F5C, 0x696D, 0x304C, 0x9032, 0x884C, 0x4E2D, 0x306E, 0x5834, 0x5408,
       0x306F, 0x3053, 0x306E, 0x30B9, 0x30D4, 0x30CA, 0x30FC] @ ''HTML'' @ utf8 [0x3092,
       0x4F7F, 0x7528, 0xFF1A] @
       ''<img src="https://github.com/user-attachments/assets/5ac382c7-e004-429b-8e35-7feb3e8f9c6f" width="14px" height="14px" style="vertical-align: middle; margin-left: 4px;" />\<newline>'' @
      (if isPR (eventData context) \<and> \<not> truthy (claudeBranch (eventData context)) then
         ''- PR'' @ utf8 [0x3067, 0x30C8, 0x30EA, 0x30AC, 0x30FC, 0x3055, 0x308C, 0x305F,
          0x5834, 0x5408, 0x306F, 0x5E38, 0x306B, 0x65E2, 0x5B58, 0x306E, 0x30D6, 0x30E9,
          0x30F3, 0x30C1, 0x306B, 0x30D7, 0x30C3, 0x30B7, 0x30E5]
       else
         ''- '' @ utf8 [0x91CD, 0x8981, 0xFF1A, 0x3059, 0x3067, 0x306B, 0x6B63, 0x3057, 0x3044,
          0x30D6, 0x30E9, 0x30F3, 0x30C1, 0xFF08] @
         or_else (claudeBranch (eventData context))
           (utf8 [0x4F5C, 0x6210, 0x3055, 0x308C, 0x305F, 0x30D6, 0x30E9, 0x30F3, 0x30C1]) @
         utf8 [0xFF09, 0x306B, 0x3044, 0x307E, 0x3059, 0x3002, 0x30A4, 0x30B7, 0x30E5, 0x30FC,
          0x307E, 0x305F, 0x306F, 0x30AF, 0x30ED, 0x30FC, 0x30BA] @ ''/'' @ utf8 [0x30DE,
          0x30FC, 0x30B8, 0x3055, 0x308C, 0x305F] @ ''PR'' @ utf8 [0x3067, 0x30C8, 0x30EA,
          0x30AC, 0x30FC, 0x3055, 0x308C, 0x305F, 0x5834, 0x5408, 0x306F, 0x3001, 0x65B0,
          0x3057, 0x3044, 0x30D6, 0x30E9, 0x30F3, 0x30C1, 0x3092, 0x4F5C, 0x6210, 0x3057,
          0x306A, 0x3044, 0x3067, 0x304F, 0x3060, 0x3055, 0x3044, 0x3002]) @
      ''\<newline>'' @
      ''- '' @ utf8 [0x30B3, 0x30DF, 0x30C3, 0x30C8, 0x3092, 0x4F5C, 0x6210, 0x3059, 0x308B,
       0x306B, 0x306F] @ ''mcp__github_file_ops__commit_files'' @ utf8 [0x3092, 0x4F7F, 0x7528,
       0xFF08, 0x65B0, 0x898F, 0x304A, 0x3088, 0x3073, 0x65E2, 0x5B58, 0x306E, 0x30D5, 0x30A1,
       0x30A4, 0x30EB, 0x3001, 0x5358, 0x4E00, 0x307E, 0x305F, 0x306F, 0x8907, 0x6570, 0x306E,
       0x4E21, 0x65B9, 0x3067, 0x52D5, 0x4F5C, 0xFF09, 0x3002, 0x30D5, 0x30A1, 0x30A4, 0x30EB,
       0x3092, 0x524A, 0x9664, 0x3059, 0x308B, 0x306B, 0x306F] @
       ''mcp__github_file_ops__delete_files'' @ utf8 [0x3092, 0x4F7F, 0x7528, 0xFF08, 0x5358,
       0x4E00, 0x307E, 0x305F, 0x306F, 0x8907, 0x6570, 0x306E, 0x30D5, 0x30A1, 0x30A4, 0x30EB,
       0x306E, 0x30A2, 0x30C8, 0x30DF, 0x30C3, 0x30AF, 0x306A, 0x524A, 0x9664, 0x3092, 0x30B5,
       0x30DD, 0x30FC, 0x30C8, 0xFF09, 0x3001, 0x307E, 0x305F, 0x306F, 0x5358, 0x4E00, 0x30D5,
       0x30A1, 0x30A4, 0x30EB, 0x3092, 0x524A, 0x9664, 0x3059, 0x308B, 0x306B, 0x306F] @
       ''mcp__github__delete_file'' @ utf8 [0x3092, 0x4F7F, 0x7528, 0x3002, 0x30ED, 0x30FC,
       0x30AB, 0x30EB, 0x3067, 0x30D5, 0x30A1, 0x30A4, 0x30EB, 0x3092, 0x7DE8, 0x96C6, 0x3057,
       0x3001, 0x30C4, 0x30FC, 0x30EB, 0x306F, 0x30C7, 0x30A3, 0x30B9, 0x30AF, 0x4E0A, 0x306E,
       0x540C, 0x3058, 0x30D1, 0x30B9, 0x304B, 0x3089, 0x30B3, 0x30F3, 0x30C6, 0x30F3, 0x30C4,
       0x3092, 0x8AAD, 0x307F, 0x53D6, 0x308A, 0x307E, 0x3059] @ ''\<newline>'' @
      ''  '' @ utf8 [0x30C4, 0x30FC, 0x30EB, 0x4F7F, 0x7528, 0x4F8B, 0xFF1A] @ ''\<newline>'' @
      ''  - mcp__github_file_ops__commit_files: {"files": ["path/to/file1.js", "path/to/file2.py"], "message": "feat: add new feature"}\<newline>'' @
      ''  - mcp__github_file_ops__delete_files: {"files": ["path/to/old.js"], "message": "chore: remove deprecated file"}\<newline>'' @
      ''- GitHub'' @ utf8 [0x30B3, 0x30E1, 0x30F3, 0x30C8, 0x3067] @ ''ToDo'' @ utf8 [0x30EA,
       0x30B9, 0x30C8, 0x3092, 0x30C1, 0x30A7, 0x30C3, 0x30AF, 0x30EA, 0x30B9, 0x30C8, 0x3068,
       0x3057, 0x3066, 0x8868, 0x793A, 0x3057, 0x3001, 0x9032, 0x884C, 0x306B, 0x5FDC, 0x3058,
       0x3066, 0x30C1, 0x30A7, 0x30C3, 0x30AF, 0x3057, 0x3066, 0x3044, 0x304F] @ ''\<newline>'' @
      ''- '' @ utf8 [0x30EA, 0x30DD, 0x30B8, 0x30C8, 0x30EA, 0x30BB, 0x30C3, 0x30C8, 0x30A2,
       0x30C3, 0x30D7, 0x624B, 0x9806, 0xFF1A, 0x30EA, 0x30DD, 0x30B8, 0x30C8, 0x30EA, 0x306E] @
       ''CLAUDE.md'' @ utf8 [0x30D5, 0x30A1, 0x30A4, 0x30EB, 0x306B, 0x306F, 0x3001, 0x91CD,
       0x8981, 0x306A, 0x30EA, 0x30DD, 0x30B8, 0x30C8, 0x30EA, 0x56FA, 0x6709, 0x306E, 0x30BB,
       0x30C3, 0x30C8, 0x30A2, 0x30C3, 0x30D7, 0x624B, 0x9806, 0x3001, 0x958B, 0x767A, 0x30AC,
       0x30A4, 0x30C9, 0x30E9, 0x30A4, 0x30F3, 0x3001, 0x304A, 0x3088, 0x3073, 0x8A2D, 0x5B9A,
       0x304C, 0x542B, 0x307E, 0x308C, 0x3066, 0x3044, 0x307E, 0x3059, 0x3002, 0x3053, 0x308C,
       0x3089, 0x306E, 0x30D5, 0x30A1, 0x30A4, 0x30EB, 0x3001, 0x7279, 0x306B, 0x30EB, 0x30FC,
       0x30C8, 0x306E] @ ''CLAUDE.md'' @ utf8 [0x3092, 0x5E38, 0x306B, 0x8AAD, 0x3093, 0x3067,
       0x5F93, 0x3063, 0x3066, 0x304F, 0x3060, 0x3055, 0x3044, 0x3002, 0x30B3, 0x30FC, 0x30C9,
       0x30D9, 0x30FC, 0x30B9, 0x3092, 0x52B9, 0x679C, 0x7684, 0x306B, 0x6271, 0x3046, 0x305F,
       0x3081, 0x306E, 0x91CD, 0x8981, 0x306A, 0x30B3, 0x30F3, 0x30C6, 0x30AD, 0x30B9, 0x30C8,
       0x3092, 0x63D0, 0x4F9B, 0x3057, 0x307E, 0x3059] @ ''\<newline>'' @
      ''- '' @ utf8 [0x30B3, 0x30E1, 0x30F3, 0x30C8, 0x306E, 0x30BB, 0x30AF, 0x30B7, 0x30E7,
       0x30F3, 0x30BF, 0x30A4, 0x30C8, 0x30EB, 0x306B, 0x306F] @ ''h1'' @ utf8 [0x30D8, 0x30C3,
       0x30C0, 0x30FC, 0xFF08] @ ''#'' @ utf8 [0xFF09, 0x3067, 0x306F, 0x306A, 0x304F] @ ''h3''
       @ utf8 [0x30D8, 0x30C3, 0x30C0, 0x30FC, 0xFF08] @ ''###'' @ utf8 [0xFF09, 0x3092, 0x4F7F,
       0x7528] @ ''\<newline>'' @
      ''- '' @ utf8 [0x30B3, 0x30E1, 0x30F3, 0x30C8, 0x306B, 0x306F, 0x5E38, 0x306B, 0x4E0B,
       0x90E8, 0x306B, 0x30B8, 0x30E7, 0x30D6, 0x5B9F, 0x884C, 0x30EA, 0x30F3, 0x30AF, 0xFF08,
       0x30D6, 0x30E9, 0x30F3, 0x30C1, 0x30EA, 0x30F3, 0x30AF, 0x304C, 0x3042, 0x308B, 0x5834,
       0x5408, 0x306F, 0x305D, 0x308C, 0x3082, 0xFF09, 0x3092, 0x542B, 0x3081, 0x308B, 0x5FC5,
       0x8981, 0x304C, 0x3042, 0x308A, 0x307E, 0x3059] @ ''\<newline>'' @
      ''\<newline>''\<close>

definition prompt_capabilities :: string where
  \<comment> \<open>lines 576 to 607\<close>
  \<open>prompt_capabilities =
      utf8 [0x6A5F, 0x80FD, 0x3068, 0x5236, 0x9650, 0x4E8B, 0x9805, 0xFF1A] @ ''\<newline>'' @
      utf8 [0x30E6, 0x30FC, 0x30B6, 0x30FC, 0x304C, 0x4F55, 0x304B, 0x3092, 0x4F9D, 0x983C,
       0x3057, 0x305F, 0x969B, 0x3001, 0x3042, 0x306A, 0x305F, 0x304C, 0x3067, 0x304D, 0x308B,
       0x3053, 0x3068, 0x3068, 0x3067, 0x304D, 0x306A, 0x3044, 0x3053, 0x3068, 0x3092, 0x8A8D,
       0x8B58, 0x3057, 0x3066, 0x304F, 0x3060, 0x3055, 0x3044, 0x3002, 0x3053, 0x306E, 0x30BB,
       0x30AF, 0x30B7, 0x30E7, 0x30F3, 0x306F, 0x3001, 0x30E6, 0x30FC, 0x30B6, 0x30FC, 0x304C,
       0x3042, 0x306A, 0x305F, 0x306E, 0x7BC4, 0x56F2, 0x5916, 0x306E, 0x30A2, 0x30AF, 0x30B7,
       0x30E7, 0x30F3, 0x3092, 0x30EA, 0x30AF, 0x30A8, 0x30B9, 0x30C8, 0x3057, 0x305F, 0x5834,
       0x5408, 0x306E, 0x5BFE, 0x5FDC, 0x65B9, 0x6CD5, 0x3092, 0x7406, 0x89E3, 0x3059, 0x308B,
       0x306E, 0x306B, 0x5F79, 0x7ACB, 0x3061, 0x307E, 0x3059, 0x3002] @ ''\<newline>'' @
      ''\<newline>'' @
      utf8 [0x3067, 0x304D, 0x308B, 0x3053, 0x3068, 0xFF1A] @ ''\<newline>'' @
      ''- '' @ utf8 [0x5358, 0x4E00, 0x306E, 0x30B3, 0x30E1, 0x30F3, 0x30C8, 0x3067, 0x5FDC,
       0x7B54, 0xFF08, 0x9032, 0x6357, 0x3068, 0x7D50, 0x679C, 0x3067, 0x521D, 0x671F, 0x30B3,
       0x30E1, 0x30F3, 0x30C8, 0x3092, 0x66F4, 0x65B0, 0xFF09] @ ''\<newline>'' @
      ''- '' @ utf8 [0x30B3, 0x30FC, 0x30C9, 0x306B, 0x95A2, 0x3059, 0x308B, 0x8CEA, 0x554F,
       0x306B, 0x7B54, 0x3048, 0x3066, 0x8AAC, 0x660E, 0x3092, 0x63D0, 0x4F9B] @ ''\<newline>'' @
      ''- '' @ utf8 [0x30B3, 0x30FC, 0x30C9, 0x30EC, 0x30D3, 0x30E5, 0x30FC, 0x3092, 0x5B9F,
       0x884C, 0x3057, 0x3001, 0x8A73, 0x7D30, 0x306A, 0x30D5, 0x30A3, 0x30FC, 0x30C9, 0x30D0,
       0x30C3, 0x30AF, 0x3092, 0x63D0, 0x4F9B, 0xFF08, 0x8981, 0x6C42, 0x3055, 0x308C, 0x306A,
       0x3044, 0x9650, 0x308A, 0x5B9F, 0x88C5, 0x3057, 0x306A, 0x3044, 0xFF09] @ ''\<newline>'' @
      ''- '' @ utf8 [0x660E, 0x793A, 0x7684, 0x306B, 0x8981, 0x6C42, 0x3055, 0x308C, 0x305F,
       0x5834, 0x5408, 0x306B, 0x30B3, 0x30FC, 0x30C9, 0x5909, 0x66F4, 0x3092, 0x5B9F, 0x88C5,
       0xFF08, 0x5358, 0x7D14, 0x304B, 0x3089, 0x4E2D, 0x7A0B, 0x5EA6, 0x306E, 0x8907, 0x96D1,
       0x3055, 0xFF09] @ ''\<newline>'' @
      ''- '' @ utf8 [0x4EBA, 0x304C, 0x4F5C, 0x6210, 0x3057, 0x305F, 0x30B3, 0x30FC, 0x30C9,
       0x3078, 0x306E, 0x5909, 0x66F4, 0x306E, 0x30D7, 0x30EB, 0x30EA, 0x30AF, 0x30A8, 0x30B9,
       0x30C8, 0x3092, 0x4F5C, 0x6210] @ ''\<newline>'' @
      ''- '' @ utf8 [0x30B9, 0x30DE, 0x30FC, 0x30C8, 0x306A, 0x30D6, 0x30E9, 0x30F3, 0x30C1,
       0x51E6, 0x7406, 0xFF1A] @ ''\<newline>'' @
      ''  - '' @ utf8 [0x30A4, 0x30B7, 0x30E5, 0x30FC, 0x3067, 0x30C8, 0x30EA, 0x30AC, 0x30FC,
       0x3055, 0x308C, 0x305F, 0x5834, 0x5408, 0xFF1A, 0x5E38, 0x306B, 0x65B0, 0x3057, 0x3044,
       0x30D6, 0x30E9, 0x30F3, 0x30C1, 0x3092, 0x4F5C, 0x6210] @ ''\<newline>'' @
      ''  - '' @ utf8 [0x30AA, 0x30FC, 0x30D7, 0x30F3] @ ''PR'' @ utf8 [0x3067, 0x30C8, 0x30EA,
       0x30AC, 0x30FC, 0x3055, 0x308C, 0x305F, 0x5834, 0x5408, 0xFF1A, 0x5E38, 0x306B, 0x65E2,
       0x5B58, 0x306E] @ ''PR'' @ utf8 [0x30D6, 0x30E9, 0x30F3, 0x30C1, 0x306B, 0x76F4, 0x63A5,
       0x30D7, 0x30C3, 0x30B7, 0x30E5] @ ''\<newline>'' @
      ''  - '' @ utf8 [0x30AF, 0x30ED, 0x30FC, 0x30BA, 0x3055, 0x308C, 0x305F] @ ''PR'' @
       utf8 [0x3067, 0x30C8, 0x30EA, 0x30AC, 0x30FC, 0x3055, 0x308C, 0x305F, 0x5834, 0x5408,
       0xFF1A, 0x65B0, 0x3057, 0x3044, 0x30D6, 0x30E9, 0x30F3, 0x30C1, 0x3092, 0x4F5C, 0x6210] @
       ''\<newline>'' @
      ''\<newline>'' @
      utf8 [0x3067, 0x304D, 0x306A, 0x3044, 0x3053, 0x3068, 0xFF1A] @ ''\<newline>'' @
      ''- '' @ utf8 [0x6B63, 0x5F0F, 0x306A] @ ''GitHub PR'' @ utf8 [0x30EC, 0x30D3, 0x30E5,
       0x30FC, 0x3092, 0x9001, 0x4FE1] @ ''\<newline>'' @
      ''- '' @ utf8 [0x30D7, 0x30EB, 0x30EA, 0x30AF, 0x30A8, 0x30B9, 0x30C8, 0x3092, 0x627F,
       0x8A8D, 0xFF08, 0x30BB, 0x30AD, 0x30E5, 0x30EA, 0x30C6, 0x30A3, 0x4E0A, 0x306E, 0x7406,
       0x7531, 0xFF09] @ ''\<newline>'' @
      ''- '' @ utf8 [0x8907, 0x6570, 0x306E, 0x30B3, 0x30E1, 0x30F3, 0x30C8, 0x3092, 0x6295,
       0x7A3F, 0xFF08, 0x521D, 0x671F, 0x30B3, 0x30E1, 0x30F3, 0x30C8, 0x306E, 0x307F, 0x3092,
       0x66F4, 0x65B0, 0xFF09] @ ''\<newline>'' @
      ''- '' @ utf8 [0x30EA, 0x30DD, 0x30B8, 0x30C8, 0x30EA, 0x30B3, 0x30F3, 0x30C6, 0x30AD,
       0x30B9, 0x30C8, 0x5916, 0x3067, 0x30B3, 0x30DE, 0x30F3, 0x30C9, 0x3092, 0x5B9F, 0x884C] @
       ''\<newline>'' @
      ''- '' @ utf8 [0x4EFB, 0x610F, 0x306E] @ ''Bash'' @ utf8 [0x30B3, 0x30DE, 0x30F3, 0x30C9,
       0x3092, 0x5B9F, 0x884C, 0xFF08] @ ''allowed_tools'' @ utf8 [0x8A2D, 0x5B9A, 0x3067,
       0x660E, 0x793A, 0x7684, 0x306B, 0x8A31, 0x53EF, 0x3055, 0x308C, 0x3066, 0x3044, 0x306A,
       0x3044, 0x9650, 0x308A, 0xFF09] @ ''\<newline>'' @
      ''- '' @ utf8 [0x30D6, 0x30E9, 0x30F3, 0x30C1, 0x64CD, 0x4F5C, 0x3092, 0x5B9F, 0x884C,
       0xFF08, 0x30D6, 0x30E9, 0x30F3, 0x30C1, 0x306E, 0x30DE, 0x30FC, 0x30B8, 0x3001, 0x30EA,
       0x30D9, 0x30FC, 0x30B9, 0x3001, 0x307E, 0x305F, 0x306F, 0x30B3, 0x30DF, 0x30C3, 0x30C8,
       0x306E, 0x30D7, 0x30C3, 0x30B7, 0x30E5, 0x4EE5, 0x5916, 0x306E] @ ''git'' @ utf8 [0x64CD,
       0x4F5C, 0x306F, 0x5B9F, 0x884C, 0x3067, 0x304D, 0x307E, 0x305B, 0x3093, 0xFF09] @
       ''\<newline>'' @
      ''\<newline>'' @
      utf8 [0x30E6, 0x30FC, 0x30B6, 0x30FC, 0x304C, 0x3053, 0x308C, 0x3089, 0x306E, 0x6A5F,
       0x80FD, 0x7BC4, 0x56F2, 0x5916, 0x306E, 0x3053, 0x3068, 0x3092, 0x6C42, 0x3081, 0x305F,
       0x5834, 0x5408, 0xFF08, 0x304B, 0x3064, 0x4ED6, 0x306E, 0x30C4, 0x30FC, 0x30EB, 0x304C,
       0x63D0, 0x4F9B, 0x3055, 0x308C, 0x3066, 0x3044, 0x306A, 0x3044, 0x5834, 0x5408, 0xFF09,
       0x3001, 0x305D, 0x306E, 0x30A2, 0x30AF, 0x30B7, 0x30E7, 0x30F3, 0x3092, 0x5B9F, 0x884C,
       0x3067, 0x304D, 0x306A, 0x3044, 0x3053, 0x3068, 0x3092, 0x4E01, 0x5BE7, 0x306B, 0x8AAC,
       0x660E, 0x3057, 0x3001, 0x53EF, 0x80FD, 0x3067, 0x3042, 0x308C, 0x3070, 0x4EE3, 0x66FF,
       0x30A2, 0x30D7, 0x30ED, 0x30FC, 0x30C1, 0x3092, 0x63D0, 0x6848, 0x3057, 0x3066, 0x304F,
       0x3060, 0x3055, 0x3044, 0x3002] @ ''\<newline>'' @
      ''\<newline>'' @
      utf8 [0x4F55, 0x304B, 0x30A2, 0x30AF, 0x30B7, 0x30E7, 0x30F3, 0x3092, 0x53D6, 0x308B,
       0x524D, 0x306B, 0x3001] @ ''<analysis>'' @ utf8 [0x30BF, 0x30B0, 0x5185, 0x3067, 0x5206,
       0x6790, 0x3092, 0x5B9F, 0x65BD, 0x3057, 0x3066, 0x304F, 0x3060, 0x3055, 0x3044, 0xFF1A] @
       ''\<newline>'' @
      ''a. '' @ utf8 [0x30A4, 0x30D9, 0x30F3, 0x30C8, 0x30BF, 0x30A4, 0x30D7, 0x3068, 0x30B3,
       0x30F3, 0x30C6, 0x30AD, 0x30B9, 0x30C8, 0x3092, 0x8981, 0x7D04] @ ''\<newline>'' @
      ''b. '' @ utf8 [0x3053, 0x308C, 0x304C, 0x30B3, 0x30FC, 0x30C9, 0x30EC, 0x30D3, 0x30E5,
       0x30FC, 0x30D5, 0x30A3, 0x30FC, 0x30C9, 0x30D0, 0x30C3, 0x30AF, 0x306E, 0x30EA, 0x30AF,
       0x30A8, 0x30B9, 0x30C8, 0x304B, 0x5B9F, 0x88C5, 0x306E, 0x30EA, 0x30AF, 0x30A8, 0x30B9,
       0x30C8, 0x304B, 0x3092, 0x5224, 0x65AD] @ ''\<newline>'' @
      ''c. '' @ utf8 [0x63D0, 0x4F9B, 0x3055, 0x308C, 0x305F, 0x30C7, 0x30FC, 0x30BF, 0x304B,
       0x3089, 0x91CD, 0x8981, 0x306A, 0x60C5, 0x5831, 0x3092, 0x30EA, 0x30B9, 0x30C8, 0x30A2,
       0x30C3, 0x30D7] @ ''\<newline>'' @
      ''d. '' @ utf8 [0x4E3B, 0x8981, 0x306A, 0x30BF, 0x30B9, 0x30AF, 0x3068, 0x6F5C, 0x5728,
       0x7684, 0x306A, 0x8AB2, 0x984C, 0x3092, 0x6982, 0x8AAC] @ ''\<newline>'' @
      ''e. '' @ utf8 [0x30EA, 0x30DD, 0x30B8, 0x30C8, 0x30EA, 0x306E, 0x30BB, 0x30C3, 0x30C8,
       0x30A2, 0x30C3, 0x30D7, 0x624B, 0x9806, 0x3068, 0x30EA, 0x30F3, 0x30C8] @ ''/'' @
       utf8 [0x30C6, 0x30B9, 0x30C8, 0x624B, 0x9806, 0x3092, 0x542B, 0x3080, 0x4E0A, 0x4F4D,
       0x30EC, 0x30D9, 0x30EB, 0x306E, 0x30A2, 0x30AF, 0x30B7, 0x30E7, 0x30F3, 0x30D7, 0x30E9,
       0x30F3, 0x3092, 0x63D0, 0x6848, 0x3002, 0x30D6, 0x30E9, 0x30F3, 0x30C1, 0x306E, 0x65B0,
       0x3057, 0x3044, 0x30C1, 0x30A7, 0x30C3, 0x30AF, 0x30A2, 0x30A6, 0x30C8, 0x4E0A, 0x306B,
       0x3044, 0x308B, 0x305F, 0x3081, 0x3001, 0x4F9D, 0x5B58, 0x95A2, 0x4FC2, 0x306E, 0x30A4,
       0x30F3, 0x30B9, 0x30C8, 0x30FC, 0x30EB, 0x3001, 0x30D3, 0x30EB, 0x30C9, 0x30B3, 0x30DE,
       0x30F3, 0x30C9, 0x306E, 0x5B9F, 0x884C, 0x306A, 0x3069, 0x304C, 0x5FC5, 0x8981, 0x306B,
       0x306A, 0x308B, 0x53EF, 0x80FD, 0x6027, 0x304C, 0x3042, 0x308B, 0x3053, 0x3068, 0x3092,
       0x8003, 0x616E, 0x3057, 0x3066, 0x304F, 0x3060, 0x3055, 0x3044, 0x3002] @ ''\<newline>'' @
      ''f. '' @ utf8 [0x7279, 0x306B, 0x6A29, 0x9650, 0x304C, 0x4E0D, 0x8DB3, 0x3057, 0x3066,
       0x3044, 0x308B, 0x305F, 0x3081, 0x3001, 0x30EA, 0x30F3, 0x30BF, 0x30FC, 0x3084, 0x30C6,
       0x30B9, 0x30C8, 0x30B9, 0x30A4, 0x30FC, 0x30C8, 0x306E, 0x5B9F, 0x884C, 0x306A, 0x3069,
       0x3001, 0x7279, 0x5B9A, 0x306E, 0x624B, 0x9806, 0x3092, 0x5B8C, 0x4E86, 0x3067, 0x304D,
       0x306A, 0x3044, 0x5834, 0x5408, 0x306F, 0x3001, 0x30E6, 0x30FC, 0x30B6, 0x30FC, 0x304C] @
       ''`--allowedTools`'' @ utf8 [0x3092, 0x66F4, 0x65B0, 0x3067, 0x304D, 0x308B, 0x3088,
       0x3046, 0x306B, 0x30B3, 0x30E1, 0x30F3, 0x30C8, 0x3067, 0x8AAC, 0x660E, 0x3057, 0x3066,
       0x304F, 0x3060, 0x3055, 0x3044, 0x3002] @ ''\<newline>''\<close>

definition generatePrompt ::
  "('d, 'c, 'r, 'f) Formatter \<Rightarrow> PreparedContext \<Rightarrow> ('d, 'c, 'r, 'f) FetchDataResult \<Rightarrow>
   string + string" where
  \<comment> \<open>\<open>Inr\<close> the prompt, or \<open>Inl\<close> the message of the Error \<^verbatim>\<open>getEventTypeAndContext\<close> throws\<close>
  \<open>generatePrompt env context githubData =
     (case getEventTypeAndContext context of
        Inl e \<Rightarrow> Inl e
      | Inr (eventType, triggerContext) \<Rightarrow>
          (let promptContent =
                 prompt_context_sections env context githubData @
                 prompt_pr_sections env context githubData @
                 prompt_metadata context eventType triggerContext @
                 prompt_trigger_lines context @
                 trigger_comment_block env context @ ''\<newline>'' @
                 direct_prompt_block env context @ ''\<newline>'' @
                 comment_tool_info context @
                 prompt_steps_1_2 context @
                 prompt_steps_3_4 context @
                 branch_workflow_block env context @
                 prompt_steps_4_5 context @
                 prompt_important_notes context @
                 prompt_capabilities
           in if truthy (customInstructions context)
              then Inr (promptContent @
                      ''\<newline>'' @
                      ''\<newline>'' @
                      utf8 [0x30AB, 0x30B9, 0x30BF, 0x30E0, 0x6307, 0x793A, 0xFF1A] @
                       ''\<newline>'' @
                      interp (customInstructions context))
              else Inr promptContent))\<close>

section \<open>Example inputs\<close>

definition example_inputs :: Inputs where
  "example_inputs =
     \<lparr>in_triggerPhrase = Some ''@claude'', in_assigneeTrigger = Some [],
      in_customInstructions = Some [], in_allowedTools = Some ''Bash(npm test)'',
      in_disallowedTools = Some [], in_directPrompt = Some []\<rparr>"

definition pr_comment_context :: ParsedGitHubContext where
  \<comment> \<open>a comment on pull request 12\<close>
  "pr_comment_context =
     \<lparr>repository_full_name = ''owner/repo'', ctx_eventName = ''issue_comment'',
      ctx_eventAction = Some ''created'',
      payload = IssueCommentPayload 55 ''@claude fix the bug'' ''alice'',
      entityNumber = 12, ctx_isPR = True, inputs = example_inputs\<rparr>"

definition issue_opened_context :: ParsedGitHubContext where
  \<comment> \<open>issue 7, opened\<close>
  "issue_opened_context =
     \<lparr>repository_full_name = ''owner/repo'', ctx_eventName = ''issues'',
      ctx_eventAction = Some ''opened'', payload = IssuesPayload ''bob'',
      entityNumber = 7, ctx_isPR = False, inputs = example_inputs\<rparr>"

definition issue_assigned_context :: ParsedGitHubContext where
  \<comment> \<open>issue 7, assigned, with no assignee trigger configured\<close>
  "issue_assigned_context =
     \<lparr>repository_full_name = ''owner/repo'', ctx_eventName = ''issues'',
      ctx_eventAction = Some ''assigned'', payload = IssuesPayload ''bob'',
      entityNumber = 7, ctx_isPR = False, inputs = example_inputs\<rparr>"

definition review_context :: "string option \<Rightarrow> ParsedGitHubContext" where
  \<comment> \<open>a review of pull request 12, with the given body\<close>
  "review_context body =
     \<lparr>repository_full_name = ''owner/repo'', ctx_eventName = ''pull_request_review'',
      ctx_eventAction = Some ''submitted'', payload = PullRequestReviewPayload body ''carol'',
      entityNumber = 12, ctx_isPR = True, inputs = example_inputs\<rparr>"

definition pull_request_context :: ParsedGitHubContext where
  \<comment> \<open>pull request 12, opened\<close>
  "pull_request_context =
     \<lparr>repository_full_name = ''owner/repo'', ctx_eventName = ''pull_request'',
      ctx_eventAction = Some ''opened'', payload = PullRequestPayload,
      entityNumber = 12, ctx_isPR = True, inputs = example_inputs\<rparr>"

definition example_common :: "string option \<Rightarrow> string option \<Rightarrow> CommonFields" where
  \<comment> \<open>the common fields of the examples, for a trigger username and a working branch\<close>
  "example_common user branch =
     \<lparr>repository = ''owner/repo'', claudeCommentId = ''99'', triggerPhrase = ''@claude'',
      triggerUsername = user, customInstructions = None,
      allowedTools = Some ''Bash(npm test)'', disallowedTools = None, directPrompt = None,
      cf_claudeBranch = branch\<rparr>"

definition pr_comment_command :: "string option \<Rightarrow> string option \<Rightarrow> PreparedContext" where
  \<comment> \<open>what \<open>prepareContext\<close> returns for \<open>pr_comment_context\<close>\<close>
  "pr_comment_command base branch =
     with_eventData (example_common (Some ''alice'') branch)
       ((no_eventData ''issue_comment'' True)
          \<lparr>commentId := Some ''55'', prNumber := Some ''12'',
           commentBody := Some ''@claude fix the bug'', claudeBranch := branch,
           defaultBranch := base\<rparr>)"

definition issue_opened_command :: PreparedContext where
  \<comment> \<open>what \<open>prepareContext\<close> returns for \<open>issue_opened_context\<close>\<close>
  "issue_opened_command =
     with_eventData (example_common (Some ''bob'') (Some ''claude/issue-7''))
       ((no_eventData ''issues'' False)
          \<lparr>eventAction := Some ''opened'', issueNumber := Some ''7'',
           defaultBranch := Some ''main'', claudeBranch := Some ''claude/issue-7''\<rparr>)"

definition pull_request_command :: PreparedContext where
  \<comment> \<open>what \<open>prepareContext\<close> returns for \<open>pull_request_context\<close>\<close>
  "pull_request_command =
     with_eventData (example_common None None)
       ((no_eventData ''pull_request'' True)
          \<lparr>eventAction := Some ''opened'', prNumber := Some ''12''\<rparr>)"

definition example_env :: "(string option, unit, unit, unit) Formatter" where
  \<comment> \<open>formatters for the examples: no comments, no review comments, no changed files\<close>
  "example_env =
     \<lparr>formatContext = (\<lambda>d pr. ''Title''), formatBody = (\<lambda>b m. b),
      formatComments = (\<lambda>c m. []), formatReviewComments = (\<lambda>r m. []),
      formatChangedFilesWithSHA = (\<lambda>f. []), stripHtmlComments = (\<lambda>s. s),
      contextData_body = (\<lambda>d. d), GITHUB_SERVER_URL = ''https://github.com''\<rparr>"

definition example_data :: "(string option, unit, unit, unit) FetchDataResult" where
  "example_data =
     \<lparr>contextData = Some ''The body'', comments = (), changedFilesWithSHA = (),
      reviewData = (), imageUrlMap = None\<rparr>"

section \<open>Facts about the JavaScript values\<close>

lemma string_of_nat_nonempty: "string_of_nat n \<noteq> []"
  by (subst string_of_nat.simps) simp

lemma toString_nonempty: "toString n \<noteq> []"
  by (simp add: toString_def string_of_nat_nonempty)

lemma toString_12: "toString 12 = ''12''"
  by code_simp

lemma toString_55: "toString 55 = ''55''"
  by code_simp

lemma toString_7: "toString 7 = ''7''"
  by code_simp

lemma truthy_Some: "truthy (Some s) = (s \<noteq> [])"
  by (simp add: truthy_def)

lemma truthy_None: "truthy None = False"
  by (simp add: truthy_def)

lemma spread_if_Some: "spread_if v = Some s \<longleftrightarrow> v = Some s \<and> s \<noteq> []"
  by (auto simp: spread_if_def truthy_def split: option.splits)

lemma spread_if_simps:
  "spread_if None = None" "spread_if (Some []) = None"
  "s \<noteq> [] \<Longrightarrow> spread_if (Some s) = Some s"
  by (simp_all add: spread_if_def truthy_def)

lemma sublist_skip: "sublist xs zs \<Longrightarrow> sublist xs (ys @ zs)"
  by (simp add: sublist_append)

lemma sublist_keep: "sublist xs ys \<Longrightarrow> sublist xs (ys @ zs)"
  by (simp add: sublist_append)

lemma sublist_trans: "sublist xs ys \<Longrightarrow> sublist ys zs \<Longrightarrow> sublist xs zs"
  by (rule sublist_order.order.trans)

lemma sublist_across_separator:
  assumes "sublist p (xs @ c # ys)" and "c \<notin> set p"
  shows "sublist p xs \<or> sublist p ys"
proof -
  from assms(1) consider "sublist p xs" | "sublist p (c # ys)"
    | xs1 xs2 where "p = xs1 @ xs2" "suffix xs1 xs" "prefix xs2 (c # ys)"
    unfolding sublist_append by blast
  then show ?thesis
  proof cases
    case 1
    then show ?thesis by simp
  next
    case 2
    then have "prefix p (c # ys) \<or> sublist p ys"
      by (simp add: sublist_Cons_right)
    then show ?thesis
    proof
      assume "prefix p (c # ys)"
      with assms(2) have "p = []" by (cases p) auto
      then show ?thesis by simp
    next
      assume "sublist p ys"
      then show ?thesis by simp
    qed
  next
    case 3
    from 3(3) assms(2) 3(1) have "xs2 = []" by (cases xs2) auto
    with 3 have "suffix p xs" by simp
    then show ?thesis by (simp add: suffix_imp_sublist)
  qed
qed

section \<open>The capability strings\<close>

lemma allowed_base_review_comment:
  "join '','' (BASE_ALLOWED_TOOLS @ [''mcp__github__update_pull_request_comment'']) =
     ''Edit,Glob,Grep,LS,Read,Write,mcp__github_file_ops__commit_files,mcp__github_file_ops__delete_files,mcp__github__update_pull_request_comment''"
  by (simp add: BASE_ALLOWED_TOOLS_def)

lemma allowed_base_other:
  "join '','' (BASE_ALLOWED_TOOLS @ [''mcp__github__update_issue_comment'']) =
     ''Edit,Glob,Grep,LS,Read,Write,mcp__github_file_ops__commit_files,mcp__github_file_ops__delete_files,mcp__github__update_issue_comment''"
  by (simp add: BASE_ALLOWED_TOOLS_def)

lemma base_review_comment_has:
  "sublist ''mcp__github__update_pull_request_comment''
     ''Edit,Glob,Grep,LS,Read,Write,mcp__github_file_ops__commit_files,mcp__github_file_ops__delete_files,mcp__github__update_pull_request_comment''"
  by code_simp

lemma base_review_comment_has_not:
  "\<not> sublist ''mcp__github__update_issue_comment''
     ''Edit,Glob,Grep,LS,Read,Write,mcp__github_file_ops__commit_files,mcp__github_file_ops__delete_files,mcp__github__update_pull_request_comment''"
  by code_simp

lemma base_other_has:
  "sublist ''mcp__github__update_issue_comment''
     ''Edit,Glob,Grep,LS,Read,Write,mcp__github_file_ops__commit_files,mcp__github_file_ops__delete_files,mcp__github__update_issue_comment''"
  by code_simp

lemma base_other_has_not:
  "\<not> sublist ''mcp__github__update_pull_request_comment''
     ''Edit,Glob,Grep,LS,Read,Write,mcp__github_file_ops__commit_files,mcp__github_file_ops__delete_files,mcp__github__update_issue_comment''"
  by code_simp

lemma not_sublist_with_extra:
  assumes "\<not> sublist p base" and "\<not> sublist p extra" and "CHR '','' \<notin> set p"
  shows "\<not> sublist p (base @ '','' @ extra)"
  using assms sublist_across_separator [of p base "CHR '',''" extra] by auto

text \<open>
  C5: the allowed-tools string holds exactly one of the two comment-update tools, as a
  substring: for \<open>pull_request_review_comment\<close> the pull-request-comment tool and not the
  issue-comment tool, for every other event kind the issue-comment tool and not the
  pull-request-comment tool. The caller's extra string is either absent (or empty) or holds
  neither tool name.
\<close>

theorem allowed_tools_comment_tool:
  assumes "\<not> truthy extra \<or>
           (\<not> sublist ''mcp__github__update_pull_request_comment'' (interp extra) \<and>
            \<not> sublist ''mcp__github__update_issue_comment'' (interp extra))"
  shows "if eventName ed = ''pull_request_review_comment''
         then sublist ''mcp__github__update_pull_request_comment''
                (buildAllowedToolsString ed extra) \<and>
              \<not> sublist ''mcp__github__update_issue_comment'' (buildAllowedToolsString ed extra)
         else sublist ''mcp__github__update_issue_comment'' (buildAllowedToolsString ed extra) \<and>
              \<not> sublist ''mcp__github__update_pull_request_comment''
                (buildAllowedToolsString ed extra)"
proof (cases "truthy extra")
  case False
  then show ?thesis
    using base_review_comment_has base_review_comment_has_not base_other_has base_other_has_not
    by (simp add: buildAllowedToolsString_def Let_def allowed_base_review_comment
        allowed_base_other)
next
  case True
  with assms have
    e: "\<not> sublist ''mcp__github__update_pull_request_comment'' (interp extra)"
       "\<not> sublist ''mcp__github__update_issue_comment'' (interp extra)"
    by simp_all
  show ?thesis
  proof (cases "eventName ed = ''pull_request_review_comment''")
    case True
    have "buildAllowedToolsString ed extra =
            ''Edit,Glob,Grep,LS,Read,Write,mcp__github_file_ops__commit_files,mcp__github_file_ops__delete_files,mcp__github__update_pull_request_comment'' @
            '','' @ interp extra"
      using True \<open>truthy extra\<close>
      by (simp add: buildAllowedToolsString_def Let_def allowed_base_review_comment)
    moreover have "sublist ''mcp__github__update_pull_request_comment''
        (''Edit,Glob,Grep,LS,Read,Write,mcp__github_file_ops__commit_files,mcp__github_file_ops__delete_files,mcp__github__update_pull_request_comment'' @
         '','' @ interp extra)"
      by (rule sublist_keep) (rule base_review_comment_has)
    moreover have "\<not> sublist ''mcp__github__update_issue_comment''
        (''Edit,Glob,Grep,LS,Read,Write,mcp__github_file_ops__commit_files,mcp__github_file_ops__delete_files,mcp__github__update_pull_request_comment'' @
         '','' @ interp extra)"
      by (rule not_sublist_with_extra) (use base_review_comment_has_not e(2) in simp_all)
    ultimately show ?thesis using True by simp
  next
    case False
    have "buildAllowedToolsString ed extra =
            ''Edit,Glob,Grep,LS,Read,Write,mcp__github_file_ops__commit_files,mcp__github_file_ops__delete_files,mcp__github__update_issue_comment'' @
            '','' @ interp extra"
      using False \<open>truthy extra\<close>
      by (simp add: buildAllowedToolsString_def Let_def allowed_base_other)
    moreover have "sublist ''mcp__github__update_issue_comment''
        (''Edit,Glob,Grep,LS,Read,Write,mcp__github_file_ops__commit_files,mcp__github_file_ops__delete_files,mcp__github__update_issue_comment'' @
         '','' @ interp extra)"
      by (rule sublist_keep) (rule base_other_has)
    moreover have "\<not> sublist ''mcp__github__update_pull_request_comment''
        (''Edit,Glob,Grep,LS,Read,Write,mcp__github_file_ops__commit_files,mcp__github_file_ops__delete_files,mcp__github__update_issue_comment'' @
         '','' @ interp extra)"
      by (rule not_sublist_with_extra) (use base_other_has_not e(1) in simp_all)
    ultimately show ?thesis using False by simp
  qed
qed

lemma example_extra_has_no_tool:
  "\<not> sublist ''mcp__github__update_pull_request_comment'' ''Bash(npm test)''"
  "\<not> sublist ''mcp__github__update_issue_comment'' ''Bash(npm test)''"
  by code_simp+

theorem allowed_tools_comment_tool_witness:
  "sublist ''mcp__github__update_pull_request_comment''
     (buildAllowedToolsString (no_eventData ''pull_request_review_comment'' True)
        (Some ''Bash(npm test)'')) \<and>
   \<not> sublist ''mcp__github__update_issue_comment''
     (buildAllowedToolsString (no_eventData ''pull_request_review_comment'' True)
        (Some ''Bash(npm test)'')) \<and>
   sublist ''mcp__github__update_issue_comment''
     (buildAllowedToolsString (eventData issue_opened_command) (Some ''Bash(npm test)'')) \<and>
   \<not> sublist ''mcp__github__update_pull_request_comment''
     (buildAllowedToolsString (eventData issue_opened_command) (Some ''Bash(npm test)''))"
proof -
  have h: "\<not> truthy (Some ''Bash(npm test)'') \<or>
           (\<not> sublist ''mcp__github__update_pull_request_comment''
                (interp (Some ''Bash(npm test)'')) \<and>
            \<not> sublist ''mcp__github__update_issue_comment'' (interp (Some ''Bash(npm test)'')))"
    using example_extra_has_no_tool by (simp add: interp_def)
  have n1: "eventName (no_eventData ''pull_request_review_comment'' True) =
              ''pull_request_review_comment''"
    by (simp add: no_eventData_def)
  have n2: "eventName (eventData issue_opened_command) \<noteq> ''pull_request_review_comment''"
    by (simp add: issue_opened_command_def with_eventData_def no_eventData_def)
  from allowed_tools_comment_tool [OF h, of "no_eventData ''pull_request_review_comment'' True"]
    allowed_tools_comment_tool [OF h, of "eventData issue_opened_command"] n1 n2
  show ?thesis by simp
qed

text \<open>
  C6: without an extra string the two capability strings are the base sets joined by
  commas; with a non-empty extra string they are the base string, a comma, and the extra
  string as it is.
\<close>

theorem tools_extra_appended_verbatim:
  "buildAllowedToolsString ed None =
     (if eventName ed = ''pull_request_review_comment''
      then ''Edit,Glob,Grep,LS,Read,Write,mcp__github_file_ops__commit_files,mcp__github_file_ops__delete_files,mcp__github__update_pull_request_comment''
      else ''Edit,Glob,Grep,LS,Read,Write,mcp__github_file_ops__commit_files,mcp__github_file_ops__delete_files,mcp__github__update_issue_comment'') \<and>
   buildDisallowedToolsString None = ''WebSearch,WebFetch'' \<and>
   (s \<noteq> [] \<longrightarrow>
      buildAllowedToolsString ed (Some s) = buildAllowedToolsString ed None @ '','' @ s \<and>
      buildDisallowedToolsString (Some s) = buildDisallowedToolsString None @ '','' @ s)"
  by (simp add: buildAllowedToolsString_def buildDisallowedToolsString_def Let_def truthy_def
      interp_def BASE_ALLOWED_TOOLS_def DISALLOWED_TOOLS_def)

theorem tools_extra_appended_verbatim_witness:
  "buildAllowedToolsString (eventData issue_opened_command) (Some ''Edit,Edit, x'') =
     ''Edit,Glob,Grep,LS,Read,Write,mcp__github_file_ops__commit_files,mcp__github_file_ops__delete_files,mcp__github__update_issue_comment,Edit,Edit, x'' \<and>
   buildDisallowedToolsString (Some ''Edit,Edit, x'') = ''WebSearch,WebFetch,Edit,Edit, x''"
proof -
  have n: "eventName (eventData issue_opened_command) \<noteq> ''pull_request_review_comment''"
    by (simp add: issue_opened_command_def with_eventData_def no_eventData_def)
  from tools_extra_appended_verbatim [of "eventData issue_opened_command" "''Edit,Edit, x''"] n
  show ?thesis by simp
qed

section \<open>Normalization\<close>

lemma truthy_prNumber: "truthy (entity_prNumber context) = ctx_isPR context"
  by (simp add: entity_prNumber_def truthy_def toString_nonempty)

lemma truthy_issueNumber: "truthy (entity_issueNumber context) = (\<not> ctx_isPR context)"
  by (simp add: entity_issueNumber_def truthy_def toString_nonempty)

lemma eventData_with_eventData: "eventData (with_eventData cf ed) = ed"
  by (simp add: with_eventData_def)

lemma commonFields_with_eventData:
  "triggerUsername (with_eventData cf ed) = triggerUsername cf"
  "customInstructions (with_eventData cf ed) = customInstructions cf"
  "allowedTools (with_eventData cf ed) = allowedTools cf"
  "disallowedTools (with_eventData cf ed) = disallowedTools cf"
  "directPrompt (with_eventData cf ed) = directPrompt cf"
  "cf_claudeBranch (with_eventData cf ed) = cf_claudeBranch cf"
  "triggerPhrase (with_eventData cf ed) = triggerPhrase cf"
  "repository (with_eventData cf ed) = repository cf"
  "claudeCommentId (with_eventData cf ed) = claudeCommentId cf"
  by (simp_all add: with_eventData_def)

lemma prepareContext_common:
  assumes "prepareContext context cid db cb = Inr r"
  shows "\<exists>ed. r = with_eventData
           (assemble_commonFields context cid (fst (extract_trigger context)) cb) ed"
  using assms
  by (auto simp: prepareContext_def Let_def split: if_splits prod.splits)

text \<open>The examples, normalized.\<close>

lemma prepare_pr_comment:
  "prepareContext pr_comment_context ''99'' (Some ''main'') (Some ''claude/fix-1'') =
     Inr (pr_comment_command (Some ''main'') (Some ''claude/fix-1''))"
  by (simp add: prepareContext_def pr_comment_context_def pr_comment_command_def example_common_def
      example_inputs_def Let_def extract_trigger_def isIssueCommentEvent_def
      assemble_commonFields_def entity_prNumber_def entity_issueNumber_def
      toString_12 toString_55 spread_if_simps truthy_def or_else_def)

lemma prepare_pr_comment_no_branch:
  "prepareContext pr_comment_context ''99'' None None = Inr (pr_comment_command None None)"
  by (simp add: prepareContext_def pr_comment_context_def pr_comment_command_def example_common_def
      example_inputs_def Let_def extract_trigger_def isIssueCommentEvent_def
      assemble_commonFields_def entity_prNumber_def entity_issueNumber_def
      toString_12 toString_55 spread_if_simps truthy_def or_else_def)

lemma prepare_issue_opened:
  "prepareContext issue_opened_context ''99'' (Some ''main'') (Some ''claude/issue-7'') =
     Inr issue_opened_command"
  by (simp add: prepareContext_def issue_opened_context_def issue_opened_command_def
      example_common_def example_inputs_def Let_def extract_trigger_def isIssueCommentEvent_def
      isPullRequestReviewEvent_def isPullRequestReviewCommentEvent_def isIssuesEvent_def
      assemble_commonFields_def entity_prNumber_def entity_issueNumber_def
      toString_7 spread_if_simps truthy_def or_else_def)

lemma prepare_pull_request:
  "prepareContext pull_request_context ''99'' None None = Inr pull_request_command"
  by (simp add: prepareContext_def pull_request_context_def pull_request_command_def
      example_common_def example_inputs_def Let_def extract_trigger_def isIssueCommentEvent_def
      isPullRequestReviewEvent_def isPullRequestReviewCommentEvent_def isIssuesEvent_def
      assemble_commonFields_def entity_prNumber_def entity_issueNumber_def no_eventData_def
      toString_12 spread_if_simps truthy_def or_else_def)

lemma missing_first_error:
  assumes "missing_required context db cb = f # rest"
  shows "prepareContext context cid db cb =
        Inl (f @ '' is required for '' @
             (if f = ''ASSIGNEE_TRIGGER'' then ''issue assigned'' else ctx_eventName context) @
             '' event'')"
proof -
  obtain u i b where e: "extract_trigger context = (u, i, b)"
    by (cases "extract_trigger context") auto
  consider (prrc) "ctx_eventName context = ''pull_request_review_comment''"
    | (prr) "ctx_eventName context = ''pull_request_review''"
    | (ic) "ctx_eventName context = ''issue_comment''"
    | (iss) "ctx_eventName context = ''issues''"
    | (pr) "ctx_eventName context = ''pull_request''"
    | (other) "ctx_eventName context \<noteq> ''pull_request_review_comment''"
        "ctx_eventName context \<noteq> ''pull_request_review''"
        "ctx_eventName context \<noteq> ''issue_comment''"
        "ctx_eventName context \<noteq> ''issues''"
        "ctx_eventName context \<noteq> ''pull_request''"
    by blast
  then show ?thesis
  proof cases
    case prrc
    with assms e show ?thesis
      by (auto simp: Let_def missing_required_def prepareContext_def truthy_prNumber
          split: if_splits)
  next
    case prr
    with assms e show ?thesis
      by (auto simp: Let_def missing_required_def prepareContext_def truthy_prNumber truthy_None
          split: if_splits)
  next
    case ic
    with assms e show ?thesis
      by (auto simp: Let_def missing_required_def prepareContext_def truthy_prNumber
          truthy_issueNumber split: if_splits)
  next
    case iss
    with assms e show ?thesis
      by (auto simp: Let_def missing_required_def prepareContext_def truthy_issueNumber
          truthy_Some split: if_splits)
  next
    case pr
    with assms e show ?thesis
      by (auto simp: Let_def missing_required_def prepareContext_def truthy_prNumber
          split: if_splits)
  next
    case other
    with assms e show ?thesis
      by (simp add: missing_required_def)
  qed
qed

text \<open>
  C1: when a field that the selected variant requires is missing or empty,
  \<open>prepareContext\<close> returns no record: it throws the error that names the first such field
  and the event kind. For an \<open>issues\<close> event with action \<open>assigned\<close> and no assignee
  trigger it throws, and when the issue number and the two branches are there the error is
  the one naming the assignee trigger and the issue assigned event.
\<close>

theorem prepareContext_missing_required:
  "(missing_required context db cb = f # rest \<longrightarrow>
      prepareContext context cid db cb =
        Inl (f @ '' is required for '' @
             (if f = ''ASSIGNEE_TRIGGER'' then ''issue assigned'' else ctx_eventName context) @
             '' event'')) \<and>
   (ctx_eventName context = ''issues'' \<and> ctx_eventAction context = Some ''assigned'' \<and>
    \<not> truthy (in_assigneeTrigger (inputs context)) \<longrightarrow>
      (\<exists>msg. prepareContext context cid db cb = Inl msg) \<and>
      (\<not> ctx_isPR context \<and> truthy db \<and> truthy cb \<longrightarrow>
         prepareContext context cid db cb =
           Inl ''ASSIGNEE_TRIGGER is required for issue assigned event''))"
proof (intro conjI impI)
  assume "missing_required context db cb = f # rest"
  then show "prepareContext context cid db cb =
        Inl (f @ '' is required for '' @
             (if f = ''ASSIGNEE_TRIGGER'' then ''issue assigned'' else ctx_eventName context) @
             '' event'')"
    by (rule missing_first_error)
next
  assume a: "ctx_eventName context = ''issues'' \<and> ctx_eventAction context = Some ''assigned'' \<and>
    \<not> truthy (in_assigneeTrigger (inputs context))"
  then show "\<exists>msg. prepareContext context cid db cb = Inl msg"
    by (auto simp: prepareContext_def Let_def truthy_Some split: prod.splits)
  assume "\<not> ctx_isPR context \<and> truthy db \<and> truthy cb"
  with a show "prepareContext context cid db cb =
           Inl ''ASSIGNEE_TRIGGER is required for issue assigned event''"
    by (auto simp: prepareContext_def Let_def truthy_Some truthy_issueNumber split: prod.splits)
qed

theorem prepareContext_missing_required_witness:
  "missing_required issue_assigned_context (Some ''main'') (Some ''claude/issue-7'') =
     [''ASSIGNEE_TRIGGER''] \<and>
   prepareContext issue_assigned_context ''99'' (Some ''main'') (Some ''claude/issue-7'') =
     Inl ''ASSIGNEE_TRIGGER is required for issue assigned event''"
proof -
  have m: "missing_required issue_assigned_context (Some ''main'') (Some ''claude/issue-7'') =
             [''ASSIGNEE_TRIGGER'']"
    by (simp add: missing_required_def issue_assigned_context_def example_inputs_def Let_def
        truthy_issueNumber truthy_Some truthy_None split: prod.splits)
  from prepareContext_missing_required
         [of issue_assigned_context "Some ''main''" "Some ''claude/issue-7''"
             "''ASSIGNEE_TRIGGER''" "[]" "''99''"] m
  show ?thesis by simp
qed

text \<open>
  C2: whenever \<open>prepareContext\<close> returns a record, its \<open>isPR\<close> flag is the context's, and
  exactly one of \<open>prNumber\<close> and \<open>issueNumber\<close> is set, to a non-empty string: \<open>prNumber\<close>
  when \<open>isPR\<close> is true, \<open>issueNumber\<close> when it is false.
\<close>

theorem prepareContext_number_by_isPR:
  assumes "prepareContext context cid db cb = Inr r"
  shows "isPR (eventData r) = ctx_isPR context \<and>
         (if isPR (eventData r)
          then (\<exists>n. n \<noteq> [] \<and> prNumber (eventData r) = Some n) \<and> issueNumber (eventData r) = None
          else (\<exists>n. n \<noteq> [] \<and> issueNumber (eventData r) = Some n) \<and> prNumber (eventData r) = None)"
  using assms
  by (auto simp: prepareContext_def Let_def eventData_with_eventData no_eventData_def
      truthy_prNumber truthy_issueNumber entity_prNumber_def entity_issueNumber_def toString_nonempty
      split: if_splits prod.splits)

theorem prepareContext_number_by_isPR_witness:
  "isPR (eventData (pr_comment_command None None)) \<and>
   (\<exists>n. n \<noteq> [] \<and> prNumber (eventData (pr_comment_command None None)) = Some n) \<and>
   issueNumber (eventData (pr_comment_command None None)) = None \<and>
   \<not> isPR (eventData issue_opened_command) \<and>
   (\<exists>n. n \<noteq> [] \<and> issueNumber (eventData issue_opened_command) = Some n) \<and>
   prNumber (eventData issue_opened_command) = None"
proof -
  have "ctx_isPR pr_comment_context" "\<not> ctx_isPR issue_opened_context"
    by (simp_all add: pr_comment_context_def issue_opened_context_def)
  with prepareContext_number_by_isPR [OF prepare_pr_comment_no_branch]
    prepareContext_number_by_isPR [OF prepare_issue_opened]
  show ?thesis by simp
qed

text \<open>
  C4, as the code has it: for a \<open>pull_request_review\<close> event on a pull request, an absent
  review body is read as the empty string, and normalization succeeds exactly when the
  review body is a non-empty string; an empty or absent body is the error
  \<open>COMMENT_BODY is required for pull_request_review event\<close>.
\<close>

theorem review_body_required:
  assumes "ctx_eventName context = ''pull_request_review''"
    and "payload context = PullRequestReviewPayload body login"
    and "ctx_isPR context"
  shows "snd (snd (extract_trigger context)) = Some (nullish body '''') \<and>
         (if truthy body
          then \<exists>r. prepareContext context cid db cb = Inr r \<and> commentBody (eventData r) = body
          else prepareContext context cid db cb =
                 Inl ''COMMENT_BODY is required for pull_request_review event'')"
  using assms
  by (cases body)
    (auto simp: prepareContext_def Let_def extract_trigger_def isIssueCommentEvent_def
      isPullRequestReviewEvent_def truthy_prNumber truthy_Some truthy_None nullish_def
      eventData_with_eventData no_eventData_def)

theorem review_body_required_witness:
  "(\<exists>r. prepareContext (review_context (Some ''LGTM'')) ''99'' None None = Inr r \<and>
        commentBody (eventData r) = Some ''LGTM'') \<and>
   prepareContext (review_context None) ''99'' None None =
     Inl ''COMMENT_BODY is required for pull_request_review event''"
proof -
  have a: "ctx_eventName (review_context b) = ''pull_request_review''"
    "payload (review_context b) = PullRequestReviewPayload b ''carol''"
    "ctx_isPR (review_context b)" for b
    by (simp_all add: review_context_def)
  from review_body_required [OF a, of "Some ''LGTM''" "''99''" None None]
    review_body_required [OF a, of None "''99''" None None]
  show ?thesis by (simp add: truthy_def)
qed

text \<open>
  The claim C4 as stated fails: a review of a pull request whose body is the empty string
  is not normalized; \<open>prepareContext\<close> throws.
\<close>

theorem review_empty_body_counterexample:
  "prepareContext (review_context (Some '''')) ''99'' None None =
     Inl ''COMMENT_BODY is required for pull_request_review event''"
  by (simp add: prepareContext_def review_context_def Let_def extract_trigger_def
      isIssueCommentEvent_def isPullRequestReviewEvent_def truthy_prNumber truthy_Some
      nullish_def)

text \<open>
  C8: in the record \<open>prepareContext\<close> returns, each optional common field holds a string
  exactly when its source holds that string and the string is not empty; so a field is
  never present and empty, and an absent or empty source gives an absent field.
\<close>

theorem prepareContext_optional_fields:
  assumes "prepareContext context cid db cb = Inr r"
  shows "(triggerUsername r = Some s \<longleftrightarrow> fst (extract_trigger context) = Some s \<and> s \<noteq> []) \<and>
         (customInstructions r = Some s \<longleftrightarrow>
            in_customInstructions (inputs context) = Some s \<and> s \<noteq> []) \<and>
         (allowedTools r = Some s \<longleftrightarrow> in_allowedTools (inputs context) = Some s \<and> s \<noteq> []) \<and>
         (disallowedTools r = Some s \<longleftrightarrow>
            in_disallowedTools (inputs context) = Some s \<and> s \<noteq> []) \<and>
         (directPrompt r = Some s \<longleftrightarrow> in_directPrompt (inputs context) = Some s \<and> s \<noteq> []) \<and>
         (cf_claudeBranch r = Some s \<longleftrightarrow> cb = Some s \<and> s \<noteq> [])"
proof -
  from prepareContext_common [OF assms] obtain ed where
    "r = with_eventData (assemble_commonFields context cid (fst (extract_trigger context)) cb) ed" ..
  then show ?thesis
    by (simp add: commonFields_with_eventData assemble_commonFields_def spread_if_Some)
qed

theorem prepareContext_optional_fields_witness:
  "allowedTools (pr_comment_command None None) = Some ''Bash(npm test)'' \<and>
   customInstructions (pr_comment_command None None) = None \<and>
   cf_claudeBranch (pr_comment_command None None) = None"
proof -
  have i: "in_allowedTools (inputs pr_comment_context) = Some ''Bash(npm test)''"
    "in_customInstructions (inputs pr_comment_context) = Some []"
    by (simp_all add: pr_comment_context_def example_inputs_def)
  from prepareContext_optional_fields [OF prepare_pr_comment_no_branch, of "''Bash(npm test)''"] i
  have 1: "allowedTools (pr_comment_command None None) = Some ''Bash(npm test)''"
    by simp
  have 2: "customInstructions (pr_comment_command None None) \<noteq> Some s" for s
    using prepareContext_optional_fields [OF prepare_pr_comment_no_branch, of s] i by simp
  have 3: "cf_claudeBranch (pr_comment_command None None) \<noteq> Some s" for s
    using prepareContext_optional_fields [OF prepare_pr_comment_no_branch, of s] by simp
  from 1 2 3 show ?thesis by (metis option.exhaust)
qed

section \<open>The classifier\<close>

text \<open>
  C9: for every record \<open>prepareContext\<close> returns, \<open>getEventTypeAndContext\<close> returns one of
  the six tags, by the event kind and, for \<open>issues\<close>, the action; the description holds the
  trigger phrase, for an assignment the assignee trigger, and for a \<open>pull_request\<close> event
  the action name when there is a non-empty one, the words \<open>pull request event\<close> otherwise.
\<close>

theorem classifier_table:
  assumes "prepareContext context cid db cb = Inr r"
  shows "\<exists>tag desc. getEventTypeAndContext r = Inr (tag, desc) \<and>
     tag \<in> set [''REVIEW_COMMENT'', ''PR_REVIEW'', ''GENERAL_COMMENT'', ''ISSUE_CREATED'',
                ''ISSUE_ASSIGNED'', ''PULL_REQUEST''] \<and>
     (eventName (eventData r) = ''pull_request_review_comment'' \<longrightarrow>
        tag = ''REVIEW_COMMENT'' \<and>
        desc = ''PR review comment with '' @ [CHR 0x27] @ triggerPhrase r @ [CHR 0x27]) \<and>
     (eventName (eventData r) = ''pull_request_review'' \<longrightarrow>
        tag = ''PR_REVIEW'' \<and>
        desc = ''PR review with '' @ [CHR 0x27] @ triggerPhrase r @ [CHR 0x27]) \<and>
     (eventName (eventData r) = ''issue_comment'' \<longrightarrow>
        tag = ''GENERAL_COMMENT'' \<and>
        desc = ''issue comment with '' @ [CHR 0x27] @ triggerPhrase r @ [CHR 0x27]) \<and>
     (eventName (eventData r) = ''issues'' \<and> eventAction (eventData r) = Some ''opened'' \<longrightarrow>
        tag = ''ISSUE_CREATED'' \<and>
        desc = ''new issue with '' @ [CHR 0x27] @ triggerPhrase r @ [CHR 0x27] @ '' in body'') \<and>
     (eventName (eventData r) = ''issues'' \<and> eventAction (eventData r) = Some ''assigned'' \<longrightarrow>
        tag = ''ISSUE_ASSIGNED'' \<and>
        (\<exists>a. a \<noteq> [] \<and> in_assigneeTrigger (inputs context) = Some a \<and>
             desc = ''issue assigned to '' @ [CHR 0x27] @ a @ [CHR 0x27])) \<and>
     (eventName (eventData r) = ''pull_request'' \<longrightarrow>
        tag = ''PULL_REQUEST'' \<and>
        desc = (case ctx_eventAction context of
                  None \<Rightarrow> ''pull request event''
                | Some a \<Rightarrow> if a = [] then ''pull request event'' else ''pull request '' @ a)) \<and>
     eventName (eventData r) = ctx_eventName context \<and>
     (eventName (eventData r) = ''issues'' \<longrightarrow>
        eventAction (eventData r) = ctx_eventAction context \<and>
        (eventAction (eventData r) = Some ''opened'' \<or> eventAction (eventData r) = Some ''assigned''))"
  using assms
  by (auto simp: prepareContext_def Let_def getEventTypeAndContext_def eventData_with_eventData
      commonFields_with_eventData no_eventData_def truthy_def interp_def
      split: if_splits prod.splits option.splits)

theorem classifier_table_witness:
  "getEventTypeAndContext (pr_comment_command None None) =
     Inr (''GENERAL_COMMENT'', ''issue comment with '' @ [CHR 0x27] @ ''@claude'' @ [CHR 0x27])"
proof -
  have e: "eventName (eventData (pr_comment_command None None)) = ''issue_comment''"
    "triggerPhrase (pr_comment_command None None) = ''@claude''"
    by (simp_all add: pr_comment_command_def with_eventData_def no_eventData_def
        example_common_def)
  from classifier_table [OF prepare_pr_comment_no_branch] e show ?thesis
    by auto
qed

section \<open>Text outside ASCII\<close>

lemma utf8_char_high:
  assumes "0x80 \<le> c" and "c < 0x10000" and "b \<in> set (utf8_char c)"
  shows "(0x80::nat) \<le> of_char b"
proof -
  have m: "n < 256 \<Longrightarrow> of_char (char_of n :: char) = n" for n :: nat
    by (simp add: of_char_of)
  show ?thesis
  proof (cases "c < 0x800")
    case True
    then have "0xC0 + c div 0x40 < 256" "0x80 + c mod 0x40 < 256" by simp_all
    with assms True show ?thesis by (auto simp: utf8_char_def m)
  next
    case False
    with assms(2) have "0xE0 + c div 0x1000 < 256" "0x80 + c div 0x40 mod 0x40 < 256"
      "0x80 + c mod 0x40 < 256" by simp_all
    with assms False show ?thesis by (auto simp: utf8_char_def m)
  qed
qed

lemma ascii_not_in_utf8:
  assumes "list_all (\<lambda>c. 0x80 \<le> c \<and> c < 0x10000) cs" and "(of_char a :: nat) < 0x80"
  shows "a \<notin> set (utf8 cs)"
proof
  assume "a \<in> set (utf8 cs)"
  then obtain c where "c \<in> set cs" "a \<in> set (utf8_char c)"
    by (auto simp: utf8_def)
  with assms(1) have "(0x80::nat) \<le> of_char a"
    by (auto simp: list_all_iff intro: utf8_char_high)
  with assms(2) show False by simp
qed

lemma utf8_nonempty: "utf8 (c # cs) \<noteq> []"
  by (simp add: utf8_def utf8_char_def)

lemma sublist_past:
  assumes "a \<notin> set u"
  shows "sublist (a # p) (u @ rest) = sublist (a # p) rest"
proof
  assume "sublist (a # p) (u @ rest)"
  then consider "sublist (a # p) u" | "sublist (a # p) rest"
    | xs1 xs2 where "a # p = xs1 @ xs2" "suffix xs1 u" "prefix xs2 rest"
    unfolding sublist_append by blast
  then show "sublist (a # p) rest"
  proof cases
    case 1
    then have "a \<in> set u" using set_mono_sublist by fastforce
    with assms show ?thesis by simp
  next
    case 2
    then show ?thesis .
  next
    case 3
    show ?thesis
    proof (cases xs1)
      case Nil
      with 3 show ?thesis by (simp add: prefix_imp_sublist)
    next
      case (Cons x xs)
      with 3(1) have "x = a" by simp
      with Cons 3(2) have "a \<in> set u" by (auto simp: suffix_def)
      with assms show ?thesis by simp
    qed
  qed
next
  assume "sublist (a # p) rest"
  then show "sublist (a # p) (u @ rest)" by (simp add: sublist_append)
qed

lemma prefix_past:
  assumes "a \<notin> set u" and "u \<noteq> []"
  shows "prefix (a # p) (u @ rest) = False"
  using assms by (cases u) auto

lemma sublist_past_utf8:
  "list_all (\<lambda>c. 0x80 \<le> c \<and> c < 0x10000) cs \<Longrightarrow> (of_char a :: nat) < 0x80 \<Longrightarrow>
   sublist (a # p) (utf8 cs @ rest) = sublist (a # p) rest"
  by (rule sublist_past) (rule ascii_not_in_utf8)

lemma prefix_past_utf8:
  "list_all (\<lambda>c. 0x80 \<le> c \<and> c < 0x10000) (c # cs) \<Longrightarrow> (of_char a :: nat) < 0x80 \<Longrightarrow>
   prefix (a # p) (utf8 (c # cs) @ rest) = False"
  by (rule prefix_past) (rule ascii_not_in_utf8, simp_all add: utf8_nonempty)

lemma sublist_past_utf8_end:
  "list_all (\<lambda>c. 0x80 \<le> c \<and> c < 0x10000) cs \<Longrightarrow> (of_char a :: nat) < 0x80 \<Longrightarrow>
   sublist (a # p) (utf8 cs) = False"
  using sublist_past_utf8 [of cs a p "[]"] by simp

lemma prefix_past_utf8_end:
  "list_all (\<lambda>c. 0x80 \<le> c \<and> c < 0x10000) (c # cs) \<Longrightarrow> (of_char a :: nat) < 0x80 \<Longrightarrow>
   prefix (a # p) (utf8 (c # cs)) = False"
  using prefix_past_utf8 [of c cs a p "[]"] by simp

section \<open>The prompt of a normalized command\<close>

lemma prepared_event_kind:
  assumes "prepareContext ctx cid db cb = Inr context"
  shows "eventName (eventData context) \<in>
           set [''pull_request_review_comment'', ''pull_request_review'', ''issue_comment'',
                ''issues'', ''pull_request'']"
  using assms
  by (auto simp: prepareContext_def Let_def eventData_with_eventData no_eventData_def
      split: if_splits prod.splits)

lemma known_kind_classified:
  assumes "eventName (eventData context) \<in>
           set [''pull_request_review_comment'', ''pull_request_review'', ''issue_comment'',
                ''issues'', ''pull_request'']"
  shows "\<exists>t d. getEventTypeAndContext context = Inr (t, d)"
  using assms by (auto simp: getEventTypeAndContext_def Let_def)

lemma prepared_branches:
  assumes "prepareContext ctx cid db cb = Inr context"
  shows "claudeBranch (eventData context) = spread_if cb \<and>
         defaultBranch (eventData context) = spread_if db \<and>
         triggerUsername context = spread_if (fst (extract_trigger ctx))"
proof -
  have t: "truthy v \<Longrightarrow> spread_if v = v" for v
    by (simp add: spread_if_def)
  from prepareContext_common [OF assms]
  have "triggerUsername context = spread_if (fst (extract_trigger ctx))"
    by (auto simp: commonFields_with_eventData assemble_commonFields_def)
  moreover from assms
  have "claudeBranch (eventData context) = spread_if cb \<and>
        defaultBranch (eventData context) = spread_if db"
    by (auto simp: prepareContext_def Let_def eventData_with_eventData no_eventData_def t
        split: if_splits prod.splits)
  ultimately show ?thesis by simp
qed

lemma generatePrompt_blocks:
  assumes "getEventTypeAndContext context = Inr (t, d)"
  shows "\<exists>doc. generatePrompt env context gd = Inr doc \<and>
           sublist (prompt_pr_sections env context gd) doc \<and>
           sublist (prompt_trigger_lines context) doc \<and>
           sublist (branch_workflow_block env context) doc"
proof -
  define A where "A = prompt_context_sections env context gd"
  define B where "B = prompt_metadata context t d"
  define C where "C = trigger_comment_block env context @ ''\<newline>'' @
    direct_prompt_block env context @ ''\<newline>'' @ comment_tool_info context @
    prompt_steps_1_2 context @ prompt_steps_3_4 context"
  define D where "D = prompt_steps_4_5 context @ prompt_important_notes context @
    prompt_capabilities"
  obtain E where g: "generatePrompt env context gd =
    Inr (A @ prompt_pr_sections env context gd @ B @ prompt_trigger_lines context @ C @
         branch_workflow_block env context @ D @ E)"
    using assms
    by (cases "truthy (customInstructions context)")
      (simp_all add: generatePrompt_def Let_def A_def B_def C_def D_def)
  have "sublist (prompt_pr_sections env context gd)
          (A @ prompt_pr_sections env context gd @ B @ prompt_trigger_lines context @ C @
           branch_workflow_block env context @ D @ E)"
    by simp
  moreover have "sublist (prompt_trigger_lines context)
          ((A @ prompt_pr_sections env context gd @ B) @ prompt_trigger_lines context @ C @
           branch_workflow_block env context @ D @ E)"
    by (rule sublist_appendI)
  moreover have "sublist (branch_workflow_block env context)
          ((A @ prompt_pr_sections env context gd @ B @ prompt_trigger_lines context @ C) @
           branch_workflow_block env context @ D @ E)"
    by (rule sublist_appendI)
  ultimately show ?thesis using g by simp
qed

lemma prepared_prompt_blocks:
  assumes "prepareContext ctx cid db cb = Inr context"
  shows "\<exists>doc. generatePrompt env context gd = Inr doc \<and>
           sublist (prompt_pr_sections env context gd) doc \<and>
           sublist (prompt_trigger_lines context) doc \<and>
           sublist (branch_workflow_block env context) doc"
proof -
  from known_kind_classified [OF prepared_event_kind [OF assms]]
  obtain t d where "getEventTypeAndContext context = Inr (t, d)" by blast
  then show ?thesis by (rule generatePrompt_blocks)
qed

lemma pr_sections_prefix:
  "prefix (''<review_comments>\<newline>'' @ review_comments_body env (eventData context) gd @
           ''\<newline></review_comments>\<newline>\<newline><changed_files>\<newline>'' @
           changed_files_body env (eventData context) gd @ ''\<newline></changed_files>'')
     (prompt_pr_sections env context gd)"
  by (simp add: prompt_pr_sections_def)

text \<open>
  C3, as the code has it: in the prompt of every normalized command the two markers
  \<open>review_comments\<close> and \<open>changed_files\<close> stand in this order with their bodies between
  them. When \<open>isPR\<close> is false both bodies are the empty string. When \<open>isPR\<close> is true a body is
  the formatted review comments (changed files), or the placeholder when that is empty.
\<close>

theorem pr_only_sections_rendering:
  assumes "prepareContext ctx cid db cb = Inr context"
  shows \<open>(\<exists>doc. generatePrompt env context gd = Inr doc \<and>
            sublist (''<review_comments>\<newline>'' @
                     review_comments_body env (eventData context) gd @
                     ''\<newline></review_comments>\<newline>\<newline><changed_files>\<newline>'' @
                     changed_files_body env (eventData context) gd @
                     ''\<newline></changed_files>'') doc) \<and>
         (if isPR (eventData context)
          then review_comments_body env (eventData context) gd =
                 (if formatReviewComments env (reviewData gd) (imageUrlMap gd) = []
                  then utf8 [0x30EC, 0x30D3, 0x30E5, 0x30FC, 0x30B3, 0x30E1, 0x30F3, 0x30C8, 0x306A, 0x3057]
                  else formatReviewComments env (reviewData gd) (imageUrlMap gd)) \<and>
               changed_files_body env (eventData context) gd =
                 (if formatChangedFilesWithSHA env (changedFilesWithSHA gd) = []
                  then utf8 [0x5909, 0x66F4, 0x3055, 0x308C, 0x305F, 0x30D5, 0x30A1, 0x30A4, 0x30EB, 0x306A, 0x3057]
                  else formatChangedFilesWithSHA env (changedFilesWithSHA gd))
          else review_comments_body env (eventData context) gd = [] \<and>
               changed_files_body env (eventData context) gd = [])\<close>
proof -
  from prepared_prompt_blocks [OF assms, of env gd] obtain doc where
    doc: "generatePrompt env context gd = Inr doc"
      "sublist (prompt_pr_sections env context gd) doc"
    by blast
  from prefix_imp_sublist [OF pr_sections_prefix] doc(2)
  have "sublist (''<review_comments>\<newline>'' @ review_comments_body env (eventData context) gd @
           ''\<newline></review_comments>\<newline>\<newline><changed_files>\<newline>'' @
           changed_files_body env (eventData context) gd @ ''\<newline></changed_files>'') doc"
    by (rule sublist_trans)
  with doc(1) show ?thesis
    by (simp add: review_comments_body_def changed_files_body_def formattedReviewComments_def
        formattedChangedFiles_def str_or_def)
qed

lemma issue_opened_bodies:
  "review_comments_body example_env (eventData issue_opened_command) example_data = []"
  "changed_files_body example_env (eventData issue_opened_command) example_data = []"
  by (simp_all add: review_comments_body_def changed_files_body_def issue_opened_command_def
      with_eventData_def no_eventData_def)

theorem pr_only_sections_rendering_witness:
  "\<exists>doc. generatePrompt example_env issue_opened_command example_data = Inr doc \<and>
         sublist ''<review_comments>\<newline>\<newline></review_comments>\<newline>\<newline><changed_files>\<newline>\<newline></changed_files>''
           doc"
  using pr_only_sections_rendering [OF prepare_issue_opened, of example_env example_data]
  by (simp add: issue_opened_bodies)

text \<open>
  The claim C3 as stated fails: for the command of an opened issue, where \<open>isPR\<close> is false,
  the bodies of the two sections are the empty string, not a placeholder.
\<close>

theorem non_pr_sections_counterexample:
  \<open>prepareContext issue_opened_context ''99'' (Some ''main'') (Some ''claude/issue-7'') =
     Inr issue_opened_command \<and>
   isPR (eventData issue_opened_command) = False \<and>
   review_comments_body example_env (eventData issue_opened_command) example_data = [] \<and>
   changed_files_body example_env (eventData issue_opened_command) example_data = [] \<and>
   prompt_pr_sections example_env issue_opened_command example_data =
     ''<review_comments>\<newline>\<newline></review_comments>\<newline>\<newline><changed_files>\<newline>\<newline></changed_files>''\<close>
proof -
  have "isPR (eventData issue_opened_command) = False"
    by (simp add: issue_opened_command_def with_eventData_def no_eventData_def)
  moreover have "imagesInfo example_data = []"
    by (simp add: imagesInfo_def example_data_def)
  ultimately show ?thesis
    by (simp add: prepare_issue_opened issue_opened_bodies prompt_pr_sections_def)
qed

lemma unknown_guidance_in_push:
  \<open>sublist (''TRIGGER_USERNAME'' @ utf8 [0x304C] @ ''"Unknown"'' @ utf8 [0x3067, 0x306A, 0x3044,
             0x5834, 0x5408, 0x306F, 0x3001, 0x30B3, 0x30DF, 0x30C3, 0x30C8, 0x30E1, 0x30C3,
             0x30BB, 0x30FC, 0x30B8, 0x306B] @ ''"Co-authored-by: '')
     (push_to_existing_branch_guidance context)\<close>
  unfolding push_to_existing_branch_guidance_def
  by ((rule prefix_imp_sublist, (simp; fail)) | rule sublist_skip)+

lemma unknown_guidance_on_branch:
  \<open>sublist (''TRIGGER_USERNAME'' @ utf8 [0x304C] @ ''"Unknown"'' @ utf8 [0x3067, 0x306A, 0x3044,
             0x5834, 0x5408, 0x306F, 0x3001, 0x30B3, 0x30DF, 0x30C3, 0x30C8, 0x30E1, 0x30C3,
             0x30BB, 0x30FC, 0x30B8, 0x306B] @ ''"Co-authored-by: '')
     (on_branch_guidance env context)\<close>
  unfolding on_branch_guidance_def
  by ((rule prefix_imp_sublist, (simp; fail)) | rule sublist_skip)+

lemma unknown_guidance_in_block:
  \<open>sublist (''TRIGGER_USERNAME'' @ utf8 [0x304C] @ ''"Unknown"'' @ utf8 [0x3067, 0x306A, 0x3044,
             0x5834, 0x5408, 0x306F, 0x3001, 0x30B3, 0x30DF, 0x30C3, 0x30C8, 0x30E1, 0x30C3,
             0x30BB, 0x30FC, 0x30B8, 0x306B] @ ''"Co-authored-by: '')
     (branch_workflow_block env context)\<close>
proof (cases "isPR (eventData context) \<and> \<not> truthy (claudeBranch (eventData context))")
  case True
  have "branch_workflow_block env context = push_to_existing_branch_guidance context"
    unfolding branch_workflow_block_def by (rule if_P [OF True])
  then show ?thesis by (simp only: unknown_guidance_in_push)
next
  case False
  have "branch_workflow_block env context = on_branch_guidance env context"
    unfolding branch_workflow_block_def by (rule if_not_P [OF False])
  then show ?thesis by (simp only: unknown_guidance_on_branch)
qed

lemma trigger_username_prefix:
  "prefix (''<trigger_username>'' @ nullish (triggerUsername context) ''Unknown'' @
           ''</trigger_username>'')
     (prompt_trigger_lines context)"
  by (simp add: prompt_trigger_lines_def)

text \<open>
  C10: in the prompt of every normalized command the \<open>trigger_username\<close> field holds a
  non-empty value: the trigger username extracted from the payload when there is a
  non-empty one, the word \<open>Unknown\<close> otherwise, as for a \<open>pull_request\<close> payload, from
  which none is extracted. The guidance on co-authored commits names that word.
\<close>

theorem trigger_username_rendering:
  assumes "prepareContext ctx cid db cb = Inr context"
  shows \<open>nullish (triggerUsername context) ''Unknown'' \<noteq> [] \<and>
         nullish (triggerUsername context) ''Unknown'' =
           (if truthy (fst (extract_trigger ctx)) then interp (fst (extract_trigger ctx))
            else ''Unknown'') \<and>
         (payload ctx = PullRequestPayload \<longrightarrow>
            nullish (triggerUsername context) ''Unknown'' = ''Unknown'') \<and>
         (\<exists>doc. generatePrompt env context gd = Inr doc \<and>
            sublist (''<trigger_username>'' @ nullish (triggerUsername context) ''Unknown'' @
                     ''</trigger_username>'') doc \<and>
            sublist (''TRIGGER_USERNAME'' @ utf8 [0x304C] @ ''"Unknown"'' @ utf8 [0x3067, 0x306A, 0x3044,
             0x5834, 0x5408, 0x306F, 0x3001, 0x30B3, 0x30DF, 0x30C3, 0x30C8, 0x30E1, 0x30C3,
             0x30BB, 0x30FC, 0x30B8, 0x306B] @ ''"Co-authored-by: '') doc)\<close>
proof -
  from prepared_branches [OF assms]
  have u: "triggerUsername context = spread_if (fst (extract_trigger ctx))" by simp
  have 1: "nullish (triggerUsername context) ''Unknown'' =
           (if truthy (fst (extract_trigger ctx)) then interp (fst (extract_trigger ctx))
            else ''Unknown'')"
    by (cases "fst (extract_trigger ctx)")
      (simp_all add: u spread_if_def truthy_def nullish_def interp_def)
  have 2: "nullish (triggerUsername context) ''Unknown'' \<noteq> []"
    by (cases "fst (extract_trigger ctx)")
      (auto simp: u spread_if_def truthy_def nullish_def)
  have 3: "payload ctx = PullRequestPayload \<longrightarrow>
            nullish (triggerUsername context) ''Unknown'' = ''Unknown''"
    by (simp add: u extract_trigger_def isIssueCommentEvent_def isPullRequestReviewEvent_def
        isPullRequestReviewCommentEvent_def isIssuesEvent_def spread_if_def truthy_def
        nullish_def)
  from prepared_prompt_blocks [OF assms, of env gd] obtain doc where
    doc: "generatePrompt env context gd = Inr doc"
      "sublist (prompt_trigger_lines context) doc"
      "sublist (branch_workflow_block env context) doc"
    by blast
  from prefix_imp_sublist [OF trigger_username_prefix] doc(2)
  have 4: "sublist (''<trigger_username>'' @ nullish (triggerUsername context) ''Unknown'' @
                     ''</trigger_username>'') doc"
    by (rule sublist_trans)
  from unknown_guidance_in_block doc(3)
  have 5: \<open>sublist (''TRIGGER_USERNAME'' @ utf8 [0x304C] @ ''"Unknown"'' @ utf8 [0x3067, 0x306A, 0x3044,
             0x5834, 0x5408, 0x306F, 0x3001, 0x30B3, 0x30DF, 0x30C3, 0x30C8, 0x30E1, 0x30C3,
             0x30BB, 0x30FC, 0x30B8, 0x306B] @ ''"Co-authored-by: '') doc\<close>
    by (rule sublist_trans)
  from 1 2 3 4 5 doc(1) show ?thesis by simp
qed

theorem trigger_username_rendering_witness:
  "\<exists>doc. generatePrompt example_env pull_request_command example_data = Inr doc \<and>
         sublist ''<trigger_username>Unknown</trigger_username>'' doc"
proof -
  have "payload pull_request_context = PullRequestPayload"
    by (simp add: pull_request_context_def)
  with trigger_username_rendering [OF prepare_pull_request, of example_env example_data]
  show ?thesis by auto
qed

section \<open>The branch guidance\<close>

lemma command_fields:
  "isPR (eventData (pr_comment_command d b)) = True"
  "claudeBranch (eventData (pr_comment_command d b)) = b"
  "defaultBranch (eventData (pr_comment_command d b)) = d"
  "triggerUsername (pr_comment_command d b) = Some ''alice''"
  "repository (pr_comment_command d b) = ''owner/repo''"
  by (simp_all add: pr_comment_command_def with_eventData_def no_eventData_def
      example_common_def)

lemma push_line_in_push:
  \<open>sublist (''      - mcp__github_file_ops__commit_files'' @ utf8 [0x3092, 0x4F7F, 0x7528,
             0x3057, 0x3066, 0x65E2, 0x5B58, 0x306E, 0x30D6, 0x30E9, 0x30F3, 0x30C1, 0x306B,
             0x76F4, 0x63A5, 0x30D7, 0x30C3, 0x30B7, 0x30E5, 0x3057, 0x3066, 0x304F, 0x3060,
             0x3055, 0x3044, 0xFF08, 0x65B0, 0x898F, 0x30D5, 0x30A1, 0x30A4, 0x30EB, 0x3068,
             0x65E2, 0x5B58, 0x30D5, 0x30A1, 0x30A4, 0x30EB, 0x306E, 0x4E21, 0x65B9, 0x3067,
             0x52D5, 0x4F5C, 0xFF09, 0x3002])
     (push_to_existing_branch_guidance context)\<close>
  unfolding push_to_existing_branch_guidance_def
  by ((rule prefix_imp_sublist, (simp; fail)) | rule sublist_skip)+

lemma push_has_no_slash:
  assumes "CHR ''/'' \<notin> set (interp (triggerUsername context))"
  shows "CHR ''/'' \<notin> set (push_to_existing_branch_guidance context)"
  using assms
  by (simp add: push_to_existing_branch_guidance_def ascii_not_in_utf8)

lemma on_branch_line:
  assumes "claudeBranch (eventData context) = Some b" and "b \<noteq> []"
  shows \<open>sublist (''      - '' @ utf8 [0x3059, 0x3067, 0x306B, 0x6B63, 0x3057, 0x3044, 0x30D6, 0x30E9,
             0x30F3, 0x30C1, 0xFF08] @ b @
            utf8 [0xFF09, 0x306B, 0x3044, 0x307E, 0x3059, 0x3002, 0x65B0, 0x3057, 0x3044,
             0x30D6, 0x30E9, 0x30F3, 0x30C1, 0x3092, 0x4F5C, 0x6210, 0x3057, 0x306A, 0x3044,
             0x3067, 0x304F, 0x3060, 0x3055, 0x3044, 0x3002])
     (on_branch_guidance env context)\<close>
  unfolding on_branch_guidance_def
  by ((rule prefix_imp_sublist, (simp add: assms or_else_def; fail)) | rule sublist_skip)+

lemma link_in_pr_link_guidance:
  \<open>sublist (''        [PR'' @ utf8 [0x3092, 0x4F5C, 0x6210] @ '']('' @ GITHUB_SERVER_URL env @ ''/'' @ repository context @
            ''/compare/'' @ interp (defaultBranch (eventData context)) @
            ''...<branch-name>?quick_pull=1&title=<url-encoded-title>&body=<url-encoded-body>)'')
     (pr_link_guidance env context)\<close>
  unfolding pr_link_guidance_def
  by ((rule prefix_imp_sublist, (simp; fail)) | rule sublist_skip)+

lemma branch_name_in_pr_link_guidance:
  assumes "claudeBranch (eventData context) = Some b"
  shows \<open>sublist (''        - branch-name'' @ utf8 [0x306F, 0x73FE, 0x5728, 0x306E, 0x30D6, 0x30E9,
             0x30F3, 0x30C1, 0xFF1A] @ b @ ''\<newline>'')
     (pr_link_guidance env context)\<close>
  unfolding pr_link_guidance_def
  by ((rule prefix_imp_sublist, (simp add: assms interp_def; fail)) | rule sublist_skip)+

lemma pr_link_guidance_on_branch:
  assumes "truthy (claudeBranch (eventData context))"
  shows "sublist (pr_link_guidance env context) (on_branch_guidance env context)"
  unfolding on_branch_guidance_def
  by ((rule prefix_imp_sublist, (simp add: assms; fail)) | rule sublist_skip)+

text \<open>
  C7, as the code has it. For every normalized command the branch guidance is part of the
  prompt. When \<open>isPR\<close> is true and there is no working branch, it is the guidance to push to
  the existing branch, which holds no slash when the trigger username holds none, so no
  link. When there is a working branch \<open>b\<close>, it says that the agent is on branch \<open>b\<close> and must
  not create a new one, and it holds a link to create a pull request whose compare range
  is the default branch name, three dots and the placeholder \<open><branch-name>\<close>; the working
  branch name is on a line of its own, as the value of \<open>branch-name\<close>.
\<close>

theorem branch_workflow_guidance:
  assumes "prepareContext ctx cid db cb = Inr context"
  shows \<open>(\<exists>doc. generatePrompt env context gd = Inr doc \<and>
            sublist (branch_workflow_block env context) doc) \<and>
         (isPR (eventData context) \<and> claudeBranch (eventData context) = None \<longrightarrow>
            branch_workflow_block env context = push_to_existing_branch_guidance context \<and>
            sublist (''      - mcp__github_file_ops__commit_files'' @ utf8 [0x3092, 0x4F7F, 0x7528,
             0x3057, 0x3066, 0x65E2, 0x5B58, 0x306E, 0x30D6, 0x30E9, 0x30F3, 0x30C1, 0x306B,
             0x76F4, 0x63A5, 0x30D7, 0x30C3, 0x30B7, 0x30E5, 0x3057, 0x3066, 0x304F, 0x3060,
             0x3055, 0x3044, 0xFF08, 0x65B0, 0x898F, 0x30D5, 0x30A1, 0x30A4, 0x30EB, 0x3068,
             0x65E2, 0x5B58, 0x30D5, 0x30A1, 0x30A4, 0x30EB, 0x306E, 0x4E21, 0x65B9, 0x3067,
             0x52D5, 0x4F5C, 0xFF09, 0x3002])
              (branch_workflow_block env context) \<and>
            (CHR ''/'' \<notin> set (interp (triggerUsername context)) \<longrightarrow>
               CHR ''/'' \<notin> set (branch_workflow_block env context))) \<and>
         (\<forall>b. claudeBranch (eventData context) = Some b \<longrightarrow>
            b \<noteq> [] \<and>
            sublist (''      - '' @ utf8 [0x3059, 0x3067, 0x306B, 0x6B63, 0x3057, 0x3044, 0x30D6, 0x30E9,
             0x30F3, 0x30C1, 0xFF08] @ b @
                     utf8 [0xFF09, 0x306B, 0x3044, 0x307E, 0x3059, 0x3002, 0x65B0, 0x3057, 0x3044,
             0x30D6, 0x30E9, 0x30F3, 0x30C1, 0x3092, 0x4F5C, 0x6210, 0x3057, 0x306A, 0x3044,
             0x3067, 0x304F, 0x3060, 0x3055, 0x3044, 0x3002])
              (branch_workflow_block env context) \<and>
            sublist (''        [PR'' @ utf8 [0x3092, 0x4F5C, 0x6210] @ '']('' @ GITHUB_SERVER_URL env @ ''/'' @
                     repository context @ ''/compare/'' @
                     interp (defaultBranch (eventData context)) @
                     ''...<branch-name>?quick_pull=1&title=<url-encoded-title>&body=<url-encoded-body>)'')
              (branch_workflow_block env context) \<and>
            sublist (''        - branch-name'' @ utf8 [0x306F, 0x73FE, 0x5728, 0x306E, 0x30D6, 0x30E9,
             0x30F3, 0x30C1, 0xFF1A] @ b @ ''\<newline>'')
              (branch_workflow_block env context))\<close>
proof (intro conjI impI allI)
  from prepared_prompt_blocks [OF assms, of env gd]
  show "\<exists>doc. generatePrompt env context gd = Inr doc \<and>
          sublist (branch_workflow_block env context) doc"
    by blast
next
  assume a: "isPR (eventData context) \<and> claudeBranch (eventData context) = None"
  then have c: "isPR (eventData context) \<and> \<not> truthy (claudeBranch (eventData context))"
    by (simp add: truthy_def)
  show p: "branch_workflow_block env context = push_to_existing_branch_guidance context"
    unfolding branch_workflow_block_def by (rule if_P [OF c])
  show \<open>sublist (''      - mcp__github_file_ops__commit_files'' @ utf8 [0x3092, 0x4F7F, 0x7528,
             0x3057, 0x3066, 0x65E2, 0x5B58, 0x306E, 0x30D6, 0x30E9, 0x30F3, 0x30C1, 0x306B,
             0x76F4, 0x63A5, 0x30D7, 0x30C3, 0x30B7, 0x30E5, 0x3057, 0x3066, 0x304F, 0x3060,
             0x3055, 0x3044, 0xFF08, 0x65B0, 0x898F, 0x30D5, 0x30A1, 0x30A4, 0x30EB, 0x3068,
             0x65E2, 0x5B58, 0x30D5, 0x30A1, 0x30A4, 0x30EB, 0x306E, 0x4E21, 0x65B9, 0x3067,
             0x52D5, 0x4F5C, 0xFF09, 0x3002])
          (branch_workflow_block env context)\<close>
    by (simp only: p push_line_in_push)
  assume "CHR ''/'' \<notin> set (interp (triggerUsername context))"
  then show "CHR ''/'' \<notin> set (branch_workflow_block env context)"
    unfolding p by (rule push_has_no_slash)
next
  fix b
  assume b: "claudeBranch (eventData context) = Some b"
  with prepared_branches [OF assms] have "spread_if cb = Some b" by simp
  then show n: "b \<noteq> []" by (simp add: spread_if_Some)
  with b have t: "truthy (claudeBranch (eventData context))" by (simp add: truthy_def)
  then have c: "\<not> (isPR (eventData context) \<and> \<not> truthy (claudeBranch (eventData context)))"
    by simp
  have o: "branch_workflow_block env context = on_branch_guidance env context"
    unfolding branch_workflow_block_def by (rule if_not_P [OF c])
  show \<open>sublist (''      - '' @ utf8 [0x3059, 0x3067, 0x306B, 0x6B63, 0x3057, 0x3044, 0x30D6, 0x30E9,
             0x30F3, 0x30C1, 0xFF08] @ b @
                utf8 [0xFF09, 0x306B, 0x3044, 0x307E, 0x3059, 0x3002, 0x65B0, 0x3057, 0x3044,
             0x30D6, 0x30E9, 0x30F3, 0x30C1, 0x3092, 0x4F5C, 0x6210, 0x3057, 0x306A, 0x3044,
             0x3067, 0x304F, 0x3060, 0x3055, 0x3044, 0x3002])
          (branch_workflow_block env context)\<close>
    unfolding o using b n by (rule on_branch_line)
  show \<open>sublist (''        [PR'' @ utf8 [0x3092, 0x4F5C, 0x6210] @ '']('' @ GITHUB_SERVER_URL env @ ''/'' @
                repository context @ ''/compare/'' @
                interp (defaultBranch (eventData context)) @
                ''...<branch-name>?quick_pull=1&title=<url-encoded-title>&body=<url-encoded-body>)'')
          (branch_workflow_block env context)\<close>
    unfolding o
    by (rule sublist_trans [OF link_in_pr_link_guidance pr_link_guidance_on_branch [OF t]])
  show \<open>sublist (''        - branch-name'' @ utf8 [0x306F, 0x73FE, 0x5728, 0x306E, 0x30D6, 0x30E9,
             0x30F3, 0x30C1, 0xFF1A] @ b @ ''\<newline>'')
          (branch_workflow_block env context)\<close>
    unfolding o
    by (rule sublist_trans
        [OF branch_name_in_pr_link_guidance [OF b] pr_link_guidance_on_branch [OF t]])
qed

theorem branch_workflow_guidance_witness:
  \<open>sublist (''        [PR'' @ utf8 [0x3092, 0x4F5C, 0x6210] @ '']('' @
            ''https://github.com/owner/repo/compare/main...<branch-name>?quick_pull=1&title=<url-encoded-title>&body=<url-encoded-body>)'')
     (branch_workflow_block example_env
        (pr_comment_command (Some ''main'') (Some ''claude/fix-1''))) \<and>
   sublist (''        - branch-name'' @ utf8 [0x306F, 0x73FE, 0x5728, 0x306E, 0x30D6, 0x30E9,
             0x30F3, 0x30C1, 0xFF1A] @ ''claude/fix-1\<newline>'')
     (branch_workflow_block example_env
        (pr_comment_command (Some ''main'') (Some ''claude/fix-1''))) \<and>
   branch_workflow_block example_env (pr_comment_command None None) =
     push_to_existing_branch_guidance (pr_comment_command None None) \<and>
   CHR ''/'' \<notin> set (branch_workflow_block example_env (pr_comment_command None None))\<close>
proof -
  have u: "GITHUB_SERVER_URL example_env = ''https://github.com''"
    by (simp add: example_env_def)
  from branch_workflow_guidance [OF prepare_pr_comment, of example_env example_data]
    branch_workflow_guidance [OF prepare_pr_comment_no_branch, of example_env example_data]
  show ?thesis
    by (auto simp: command_fields u interp_def)
qed

text \<open>
  The claim C7 as stated fails: for a comment on a pull request with the default branch
  \<open>main\<close> and the working branch \<open>claude/fix-1\<close>, the branch guidance nowhere joins the two
  names by three dots.
\<close>

theorem pr_link_compare_range_counterexample:
  "prepareContext pr_comment_context ''99'' (Some ''main'') (Some ''claude/fix-1'') =
     Inr (pr_comment_command (Some ''main'') (Some ''claude/fix-1'')) \<and>
   defaultBranch (eventData (pr_comment_command (Some ''main'') (Some ''claude/fix-1''))) =
     Some ''main'' \<and>
   claudeBranch (eventData (pr_comment_command (Some ''main'') (Some ''claude/fix-1''))) =
     Some ''claude/fix-1'' \<and>
   \<not> sublist ''main...claude/fix-1''
     (branch_workflow_block example_env
        (pr_comment_command (Some ''main'') (Some ''claude/fix-1'')))"
proof -
  have "\<not> sublist ''main...claude/fix-1''
     (branch_workflow_block example_env
        (pr_comment_command (Some ''main'') (Some ''claude/fix-1'')))"
    by (simp add: branch_workflow_block_def on_branch_guidance_def pr_link_guidance_def
        command_fields example_env_def truthy_def or_else_def interp_def
        sublist_Cons_right sublist_past_utf8 prefix_past_utf8 sublist_past_utf8_end
        prefix_past_utf8_end)
  then show ?thesis
    by (simp add: prepare_pr_comment command_fields)
qed

end
